theory Spec2Isabelle
  imports Complex_Main "HOL-Library.Multiset" "HOL-Library.List_Lexorder"
begin

section \<open>Data model\<close>

text \<open>
  Coordinates and energies are C++ \<open>double\<close>s in the source. They are embedded as
  \<open>real\<close>: every statement below is about the exact arithmetic the code denotes,
  not about IEEE rounding. Sums are written with \<open>sum_list\<close> whatever the order in
  which the source accumulates them. A function whose result is an \<open>option\<close> has the
  value \<open>None\<close> where the source has no result: where its behaviour is undefined (an
  index past the end of a container, a dereferenced or incremented end iterator), where a
  \<open>BOOST_ASSERT\<close> fails, and where an exception leaves it. Log lines and the debugging
  output on \<open>std::cout\<close> are left out.
\<close>

text \<open>
  \<open>struct evalconditions\<close> (conditions.hpp). A \<open>std::map\<close> is kept as the list of
  its entries in key order, which is the order its iterators visit.
\<close>

datatype PhaseStatus = ENTERED | DORMANT | FIXED | SUSPENDED

record evalconditions =
  statevars :: "(char \<times> real) list"
  elements :: "string list"
  phases :: "(string \<times> PhaseStatus) list"
  xfrac :: "(string \<times> real) list"

text \<open>
  Modelled from the spec: the entry type of \<open>ConvexHullMap\<close> (hull_mapping.hpp is
  not among the sources). The fields are the ones the resolver reads, plus the
  on-global-hull flag of the specification's hull point entry.
\<close>

record hull_entry =
  phase_name :: string
  internal_coordinates :: "real list"
  global_coordinates :: "(string \<times> real) list"
  energy :: real
  global_hull_status :: bool

text \<open>
  Modelled from the spec: \<open>SimplicialFacet\<close> (simplicial_facet.hpp is not
  among the sources). The matrix is a list of rows.
\<close>

record simplicial_facet =
  vertices :: "nat list"
  normal :: "real list"
  area :: real
  basis_matrix :: "real list list"

text \<open>The data members of \<open>GlobalMinimizer\<close>; the hull map is the vector of its entries.\<close>

record global_minimizer =
  hull_map :: "hull_entry list"
  candidate_facets :: "simplicial_facet list"
  critical_edge_length :: real
  initial_subdivisions_per_axis :: nat
  refinement_subdivisions_per_axis :: nat
  max_search_depth :: nat
  discard_unstable :: bool

section \<open>Tie-point resolver: \<open>GlobalMinimizer::find_tie_points\<close>\<close>

text \<open>
  \<open>boost::numeric::ublas::prod (matrix, vector)\<close>: component \<open>i\<close> is the inner product
  of row \<open>i\<close> with the vector. The library wants as many columns as the vector has
  elements; \<open>facet_readable\<close> below asks for it.
\<close>

definition prod_mv :: "real list list \<Rightarrow> real list \<Rightarrow> real list" where
  "prod_mv m v = map (\<lambda>row. sum_list (map2 (*) row v)) m"

text \<open>
  The trial point: the values of \<open>conditions.xfrac\<close> in key order, then a trailing 1.
\<close>

definition trial_point :: "evalconditions \<Rightarrow> real list" where
  "trial_point conditions = map snd (xfrac conditions) @ [1]"

text \<open>
  The loop over \<open>trial_vector\<close> sets \<open>failed_conditions\<close> at the first component
  \<open>coord < 0\<close>; a facet is a pre-candidate when no component does.
\<close>

definition failed_conditions :: "real list \<Rightarrow> simplicial_facet \<Rightarrow> bool" where
  "failed_conditions p facet = list_ex (\<lambda>coord. coord < 0) (prod_mv (basis_matrix facet) p)"

text \<open>
  What the body of the loop over the candidate facets needs: \<open>hull_map [point_id]\<close>
  is read for every vertex of the facet (already for the log line), and every row of the
  basis matrix is multiplied with the trial point. A default-constructed matrix has no
  row.
\<close>

definition facet_readable :: "hull_entry list \<Rightarrow> real list \<Rightarrow> simplicial_facet \<Rightarrow> bool" where
  "facet_readable hm p facet =
     (list_all (\<lambda>point_id. point_id < length hm) (vertices facet) \<and>
      list_all (\<lambda>row. length row = length p) (basis_matrix facet))"

text \<open>
  The distance of two entries' internal coordinates, as both the tie-line step and the
  merge step compute it: \<open>difference\<close> starts as a copy of the second point's
  coordinates, the first point's coordinates are subtracted through an iterator that
  starts at its beginning, then the squares are summed and the root is taken. The
  iterator leaves \<open>difference\<close> when the first point has more coordinates.
\<close>

definition internal_distance :: "real list \<Rightarrow> real list \<Rightarrow> real option" where
  "internal_distance point1 point2 =
     (if length point2 < length point1 then None
      else let difference = map2 (\<lambda>d coord. d - coord) point2 point1 @ drop (length point1) point2
           in Some (sqrt (sum_list (map (\<lambda>coord. coord ^ 2) difference))))"

text \<open>
  \<open>std::set<std::size_t> candidate_ids\<close>: the list of its elements in ascending order.
\<close>

definition set_insert :: "nat \<Rightarrow> nat list \<Rightarrow> nat list" where
  "set_insert x ids = (if x \<in> set ids then ids else insort x ids)"

definition set_erase :: "nat \<Rightarrow> nat list \<Rightarrow> nat list" where
  "set_erase x ids = remove1 x ids"

text \<open>
  Modelled from the spec: \<open>for_each_pair\<close> (for_each_pair.hpp is not among the
  sources) calls its function on every unordered pair of positions of the range, the
  first position before the second.
\<close>

fun for_each_pair :: "('a \<Rightarrow> 'a \<Rightarrow> 's \<Rightarrow> 's) \<Rightarrow> 'a list \<Rightarrow> 's \<Rightarrow> 's" where
  "for_each_pair f [] s = s"
| "for_each_pair f (x # xs) s = for_each_pair f xs (fold (f x) xs s)"

text \<open>
  The lambda given to \<open>for_each_pair\<close>. The state is \<open>candidate_ids\<close>, or \<open>None\<close>
  once a step was undefined.
\<close>

definition tie_line_step ::
  "hull_entry list \<Rightarrow> real \<Rightarrow> nat \<Rightarrow> nat \<Rightarrow> nat list option \<Rightarrow> nat list option" where
  "tie_line_step hm eps point1_id point2_id st =
     (case st of
        None \<Rightarrow> None
      | Some candidate_ids \<Rightarrow>
          let point1_entry = hm ! point1_id; point2_entry = hm ! point2_id in
          if phase_name point1_entry \<noteq> phase_name point2_entry
          then Some (set_insert point2_id (set_insert point1_id candidate_ids))
          else (case internal_distance (internal_coordinates point1_entry)
                                       (internal_coordinates point2_entry) of
                  None \<Rightarrow> None
                | Some distance \<Rightarrow>
                    if distance > eps
                    then Some (set_insert point2_id (set_insert point1_id candidate_ids))
                    else Some candidate_ids))"

text \<open>
  The merge step. The source is
  \<^verbatim>\<open>
  for ( auto point1 = candidate_ids.begin(); point1 != candidate_ids.end(); ++point1 ) {
      for ( auto point2 = point1; ++point2 != candidate_ids.end(); /**/ ) {
          ...
          if ( point1_entry.phase_name != point2_entry.phase_name ) { continue; }
          ...
          if (distance <= critical_edge_length) {
              candidate_ids.erase ( point2_id );
              point1 = candidate_ids.begin();
              point2 = ++( candidate_ids.begin() );
          }
      }
  }
  \<close>
  \<open>merge_scan hm eps ids i j\<close> is the state just before the inner loop's condition
  \<open>++point2 != candidate_ids.end()\<close> is evaluated, with \<open>point1\<close> at position \<open>i\<close> and
  \<open>point2\<close> at position \<open>j\<close> of the set. The condition increments \<open>point2\<close> first, also
  right after the reset, and incrementing the end iterator is undefined.
\<close>

function merge_scan ::
  "hull_entry list \<Rightarrow> real \<Rightarrow> nat list \<Rightarrow> nat \<Rightarrow> nat \<Rightarrow> nat list option" where
  "merge_scan hm eps ids i j =
     (if length ids \<le> j then None
      else if Suc j = length ids then
        (if Suc i = length ids then Some ids
         else merge_scan hm eps ids (Suc i) (Suc i))
      else
        let point1_id = ids ! i; point2_id = ids ! Suc j;
            point1_entry = hm ! point1_id; point2_entry = hm ! point2_id in
        if phase_name point1_entry \<noteq> phase_name point2_entry
        then merge_scan hm eps ids i (Suc j)
        else (case internal_distance (internal_coordinates point1_entry)
                                     (internal_coordinates point2_entry) of
                None \<Rightarrow> None
              | Some distance \<Rightarrow>
                  if distance \<le> eps
                  then merge_scan hm eps (set_erase point2_id ids) 0 1
                  else merge_scan hm eps ids i (Suc j)))"
  by pat_completeness auto
termination
proof (relation "measures [\<lambda>(hm, eps, ids, i, j). length ids,
                           \<lambda>(hm, eps, ids, i, j). length ids - i,
                           \<lambda>(hm, eps, ids, i, j). length ids - j]", goal_cases)
  case 1
  show ?case by simp
next
  case (2 hm eps ids i j)
  then show ?case by auto
next
  case (3 hm eps ids i j)
  then show ?case by auto
next
  case (4 hm eps ids i j x1 x2 x3 x4 x5)
  have "Suc j < length ids" using 4 by simp
  then have "ids ! Suc j \<in> set ids" by simp
  then have "length (remove1 (ids ! Suc j) ids) < length ids"
    by (simp add: length_remove1) (cases ids; simp)
  then show ?case using 4 by (simp add: set_erase_def)
next
  case (5 hm eps ids i j)
  then show ?case by auto
qed

definition merge_step :: "hull_entry list \<Rightarrow> real \<Rightarrow> nat list \<Rightarrow> nat list option" where
  "merge_step hm eps candidate_ids =
     (if candidate_ids = [] then Some [] else merge_scan hm eps candidate_ids 0 0)"



definition pre_candidate_facets :: "global_minimizer \<Rightarrow> evalconditions \<Rightarrow> simplicial_facet list" where
  "pre_candidate_facets gm conditions =
     filter (\<lambda>facet. \<not> failed_conditions (trial_point conditions) facet) (candidate_facets gm)"

text \<open>
  Everything after \<open>final_facet\<close> is chosen: the tie-line step over the vertex pairs,
  the merge step, the single-phase fallback and the dereferencing of the ids.
\<close>

definition tie_points_of_facet ::
  "hull_entry list \<Rightarrow> real \<Rightarrow> simplicial_facet \<Rightarrow> hull_entry list option" where
  "tie_points_of_facet hm eps final_facet =
     (case for_each_pair (tie_line_step hm eps) (vertices final_facet) (Some []) of
        None \<Rightarrow> None
      | Some candidate_ids \<Rightarrow>
          (case merge_step hm eps candidate_ids of
             None \<Rightarrow> None
           | Some merged \<Rightarrow>
               if merged = []
               then (case vertices final_facet of
                       [] \<Rightarrow> None
                     | first_vertex # _ \<Rightarrow> Some [hm ! first_vertex])
               else Some (map (\<lambda>point_id. hm ! point_id) merged)))"

text \<open>
  \<open>find_tie_points\<close>. The local \<open>const double critical_edge_length = 0.05\<close> shadows
  the data member of the same name for the whole body.
\<close>

definition find_tie_points ::
  "(simplicial_facet list \<Rightarrow> simplicial_facet list) \<Rightarrow> global_minimizer \<Rightarrow> evalconditions
     \<Rightarrow> hull_entry list option" where
  "find_tie_points std_sort gm conditions =
     (let local_critical_edge_length = 5 / 100 in
      if \<not> list_all (facet_readable (hull_map gm) (trial_point conditions)) (candidate_facets gm)
      then None
      else
        let sorted_facets = std_sort (pre_candidate_facets gm conditions) in
        if length sorted_facets = 0 then Some []
        else tie_points_of_facet (hull_map gm) local_critical_edge_length (hd sorted_facets))"

section \<open>The hull engine\<close>

text \<open>
  Qhull is outside the repository. The builders read of each of its facets what
  \<open>QhullFacet\<close> exposes: \<open>isDefined()\<close>, \<open>isGood()\<close>, \<open>isSimplicial()\<close>, the
  coefficients of \<open>hyperplane()\<close>, the vertices (each with the id and the coordinates of
  its point, in the coordinates Qhull works in after it dropped the dimensions it was
  told to drop) and \<open>facetArea\<close>.
\<close>

record qhull_vertex =
  vertex_point_id :: nat
  vertex_point :: "real list"

record qhull_facet =
  isDefined :: bool
  isGood :: bool
  isSimplicial :: bool
  hyperplane :: "real list"
  facet_vertices :: "qhull_vertex list"
  facetArea :: real

text \<open>
  The engine is a parameter of both builders: from the buffered points and the
  dimensions named in the \<open>Qbk:0Bk:0\<close> options to the facet list, or \<open>None\<close> when the
  \<open>Qhull\<close> constructor throws.
\<close>

type_synonym hull_engine = "real list list \<Rightarrow> nat list \<Rightarrow> qhull_facet list option"

section \<open>Internal hull builder: convex_hull.cpp\<close>

text \<open>
  \<open>restore_dependent_dimensions\<close>. \<open>restore_loop rest sublattice_offset dims\<close> is the
  part of \<open>final_point\<close> that the outer loop still appends when \<open>iter\<close> stands at the
  beginning of \<open>rest\<close> and \<open>dims\<close> are the dependent dimensions not yet visited (a
  \<open>std::set\<close>, visited in ascending order). The inner loop runs
  \<open>dimension - sublattice_offset\<close> times (not at all when the dimension \<open>dim\<close> of the
  source is not above the offset) and dereferences \<open>iter\<close> each
  time, which is undefined at the end of the point.
\<close>

fun restore_loop :: "real list \<Rightarrow> nat \<Rightarrow> nat list \<Rightarrow> real list option" where
  "restore_loop rest sublattice_offset [] = Some []"
| "restore_loop rest sublattice_offset (dimension # dims) =
     (let n = dimension - sublattice_offset in
      if length rest < n then None
      else (case restore_loop (drop n rest) (dimension + 1) dims of
              None \<Rightarrow> None
            | Some final_point \<Rightarrow>
                Some (take n rest @ [1 - sum_list (take n rest)] @ final_point)))"

definition restore_dependent_dimensions :: "real list \<Rightarrow> nat list \<Rightarrow> real list option" where
  "restore_dependent_dimensions point dependent_dimensions =
     restore_loop point 0 dependent_dimensions"

text \<open>The lambda \<open>too_similar\<close>.\<close>

definition too_similar :: "real list \<Rightarrow> real list \<Rightarrow> bool" where
  "too_similar a b =
     (if length a \<noteq> length b then False
      else list_all (\<lambda>(x, y). \<not> \<bar>x - y\<bar> > 1 / 10 ^ 20) (zip a b))"

text \<open>
  \<open>std::unique\<close> with a binary predicate: an element is dropped when the predicate
  holds of the last element kept and it.
\<close>

fun std_unique :: "('a \<Rightarrow> 'a \<Rightarrow> bool) \<Rightarrow> 'a list \<Rightarrow> 'a list" where
  "std_unique p [] = []"
| "std_unique p [x] = [x]"
| "std_unique p (x # y # ys) =
     (if p x y then std_unique p (x # ys) else x # std_unique p (y # ys))"

text \<open>
  The search for the point of lowest energy (last coordinate): the iterator moves only
  to a point whose energy is strictly below the current one's.
\<close>

fun minimum_point :: "real list \<Rightarrow> real list list \<Rightarrow> real list" where
  "minimum_point m [] = m"
| "minimum_point m (pt # pts) = minimum_point (if last m > last pt then pt else m) pts"

text \<open>
  In both builders the parameter \<open>critical_edge_length\<close> of the source is written
  \<open>critical_length\<close>, the data member of \<open>GlobalMinimizer\<close> having the longer name.
\<close>

text \<open>
  What one facet adds to \<open>candidate_points\<close>. The source reads the last hyperplane
  coefficient before it tests for an empty hyperplane; a facet with an empty hyperplane
  is skipped by one test or the other. After the vertices are pushed the loop body
  executes \<open>continue\<close>: the edge-length and coplanarity code that follows it in the
  source is never reached, and has no counterpart here.
\<close>

definition facet_candidate_points :: "nat list \<Rightarrow> qhull_facet \<Rightarrow> real list list option" where
  "facet_candidate_points dependent_dimensions facet =
     (if isDefined facet \<and> isGood facet then
        (if hyperplane facet = [] then Some []
         else if last (hyperplane facet) > 0 then Some []
         else those (map (\<lambda>vertex. restore_dependent_dimensions (vertex_point vertex)
                                       dependent_dimensions)
                         (facet_vertices facet)))
      else Some [])"

text \<open>
  \<open>candidate_points\<close> when the loop over the facets of \<open>qhull.facetList()\<close> has
  ended. The buffer given to Qhull holds \<open>point_dimension\<close> coordinates of every point.
\<close>

definition hull_candidate_points ::
  "hull_engine \<Rightarrow> real list list \<Rightarrow> nat list \<Rightarrow> real list list option" where
  "hull_candidate_points qhull points dependent_dimensions =
     (case qhull (map (take (length (hd points))) points) dependent_dimensions of
        None \<Rightarrow> None
      | Some facets \<Rightarrow>
          map_option concat
            (those (map (facet_candidate_points dependent_dimensions) facets)))"

definition internal_lower_convex_hull ::
  "hull_engine \<Rightarrow> real list list \<Rightarrow> nat list \<Rightarrow> real \<Rightarrow> (real list \<Rightarrow> real)
     \<Rightarrow> real list list option" where
  "internal_lower_convex_hull qhull points dependent_dimensions critical_length
       calculate_objective =
     (if length points > 0 \<and> critical_length > 0 then
        let point_dimension = length (hd points); point_count = length points in
        if point_count = 1 then
          map_option (\<lambda>return_point. [return_point])
            (restore_dependent_dimensions (hd points) dependent_dimensions)
        else if point_count \<le> point_dimension then
          those (map (\<lambda>pt. restore_dependent_dimensions pt dependent_dimensions) points)
        else if list_all (\<lambda>pt. point_dimension \<le> length pt) points then
          (case hull_candidate_points qhull points dependent_dimensions of
             None \<Rightarrow> None
           | Some candidate_points \<Rightarrow>
               if length candidate_points > 0 then
                 those (map (\<lambda>pt. restore_dependent_dimensions pt dependent_dimensions)
                            (std_unique too_similar (sort candidate_points)))
               else if point_dimension = 0 then None
               else Some [butlast (minimum_point (hd points) points)])
        else None
      else None)"

section \<open>Global hull builder: convex_hull_global.cpp\<close>

text \<open>
  The facet built from one Qhull facet: the vertex ids, the basis matrix, the normal
  and the area. Column \<open>j\<close> of the matrix holds the coordinates of vertex \<open>j\<close> without
  the last one (the energy), and a 1 in the last row. The matrix has
  \<open>vertex_count\<close> rows and columns; every cell is written, and no cell outside it, when
  each vertex has \<open>vertex_count\<close> coordinates. The call of \<open>InvertMatrix\<close> is commented
  out in the source (\<open>//TODO: bool success = InvertMatrix ( ... )\<close>), so the matrix
  is stored as filled.
\<close>

definition new_facet :: "qhull_facet \<Rightarrow> simplicial_facet option" where
  "new_facet facet =
     (let vs = facet_vertices facet; vertex_count = length vs;
          columns = map (\<lambda>vertex. butlast (vertex_point vertex) @ [1]) vs in
      if list_all (\<lambda>vertex. length (vertex_point vertex) = vertex_count) vs then
        Some \<lparr>vertices = map vertex_point_id vs,
              normal = hyperplane facet,
              area = facetArea facet,
              basis_matrix = map (\<lambda>row_index. map (\<lambda>column. column ! row_index) columns)
                                 [0..<vertex_count]\<rparr>
      else None)"

text \<open>
  What one Qhull facet adds to \<open>candidates\<close>. As in the internal builder, the loop
  body executes \<open>continue\<close> right after the facet is pushed, so the edge filter after it
  is never reached.
\<close>

definition facet_candidates :: "qhull_facet \<Rightarrow> simplicial_facet list option" where
  "facet_candidates facet =
     (if isDefined facet \<and> isGood facet \<and> isSimplicial facet then
        (if hyperplane facet = [] then Some []
         else if last (hyperplane facet) > 0 then Some []
         else map_option (\<lambda>f. [f]) (new_facet facet))
      else Some [])"

text \<open>
  \<open>global_lower_convex_hull\<close>. The dropped dimension is \<open>point_dimension-2\<close> in
  \<open>std::size_t\<close> arithmetic (64 bits).
\<close>

definition global_lower_convex_hull ::
  "hull_engine \<Rightarrow> real list list \<Rightarrow> real \<Rightarrow> (nat \<Rightarrow> nat \<Rightarrow> real)
     \<Rightarrow> simplicial_facet list option" where
  "global_lower_convex_hull qhull points critical_length calculate_midpoint_energy =
     (if length points > 0 \<and> critical_length > 0 then
        let point_dimension = length (hd points); point_count = length points in
        if point_count = 1 then
          Some [\<lparr>vertices = [0], normal = [0], area = 0, basis_matrix = []\<rparr>]
        else if list_all (\<lambda>pt. point_dimension \<le> length pt) points then
          (case qhull (map (take point_dimension) points)
                      [(point_dimension + 2 ^ 64 - 2) mod 2 ^ 64] of
             None \<Rightarrow> None
           | Some facets \<Rightarrow> map_option concat (those (map facet_candidates facets)))
        else None
      else None)"

section \<open>Composition set: compositionset.cpp\<close>

text \<open>
  The expression trees are \<open>boost::spirit::utree\<close> values and are evaluated by
  \<open>process_utree\<close>, which is declared in math_expr.hpp and defined outside the
  sources. The tree type is a type parameter \<open>'u\<close> and the evaluator is a parameter of
  every function that calls it; it yields \<open>None\<close> where \<open>process_utree\<close> throws.
  The bimap \<open>main_indices\<close> is the list of its (name, index) entries, and \<open>x\<close>, a
  \<open>double*\<close>, is the list of the numbers it points to.
\<close>

type_synonym 'u evaluator =
  "'u \<Rightarrow> evalconditions \<Rightarrow> (string \<times> int) list \<Rightarrow> (string \<times> 'u) list \<Rightarrow> real list \<Rightarrow> real option"

text \<open>
  Modelled from the spec: the element types of the containers below (ast_caching.hpp,
  constraint.hpp and compositionset.hpp are not among the sources). An \<open>ast_entry\<close>
  holds the differentiating variables, the name of the model and the tree, as the
  constructor \<open>ast_entry ( diffvars, j->first, difftree )\<close> is called; its derivative
  order is the number of differentiating variables.
\<close>

record 'u ast_entry =
  diffvars :: "string list"
  model_name :: string
  ast :: 'u

record 'u jacobian_entry =
  cons_index :: int
  var_index :: int
  jac_constant :: bool
  jac_ast :: 'u

record 'u Constraint =
  lhs :: 'u
  rhs :: 'u

record 'u CompositionSet =
  cset_name :: string
  starting_point :: "(string \<times> real) list"
  models :: "(string \<times> 'u) list"
  jac_g_trees :: "'u jacobian_entry list"
  hessian_data :: "'u ast_entry list"
  tree_data :: "'u ast_entry list"
  first_derivatives :: "'u ast_entry list"
  symbols :: "(string \<times> 'u) list"
  constraints :: "'u Constraint list"
  phase_indices :: "(string \<times> int) list"
  constraint_null_space_matrix :: "real list list"

text \<open>\<open>x[i]\<close> for an \<open>int\<close> index: defined inside the array only.\<close>

definition array_read :: "real list \<Rightarrow> int \<Rightarrow> real option" where
  "array_read x i = (if 0 \<le> i \<and> nat i < length x then Some (x ! nat i) else None)"

text \<open>
  \<open>evaluate_objective\<close> (the overload on \<open>main_indices\<close> and \<open>x\<close>): the sum of
  the models' trees, in the order of the map \<open>models\<close>.
\<close>

definition add_model ::
  "'u evaluator \<Rightarrow> 'u CompositionSet \<Rightarrow> evalconditions \<Rightarrow> (string \<times> int) list \<Rightarrow> real list
     \<Rightarrow> string \<times> 'u \<Rightarrow> real option \<Rightarrow> real option" where
  "add_model process_utree cs conditions main_indices x i st =
     (case st of
        None \<Rightarrow> None
      | Some objective \<Rightarrow>
          (case process_utree (snd i) conditions main_indices (symbols cs) x of
             None \<Rightarrow> None
           | Some v \<Rightarrow> Some (objective + v)))"

definition evaluate_objective ::
  "'u evaluator \<Rightarrow> 'u CompositionSet \<Rightarrow> evalconditions \<Rightarrow> (string \<times> int) list \<Rightarrow> real list
     \<Rightarrow> real option" where
  "evaluate_objective process_utree cs conditions main_indices x =
     fold (add_model process_utree cs conditions main_indices x) (models cs) (Some 0)"

text \<open>
  \<open>evaluate_objective_gradient\<close>. The range \<open>ast_begin .. ast_end\<close> holds the entries
  of \<open>tree_data\<close> of derivative order 1. \<open>main_indices.left.at\<close> throws for a name
  the bimap does not hold; \<open>retmap[varindex] += v\<close> starts from 0 where the map has no
  entry yet.
\<close>

definition first_order_entries :: "'u CompositionSet \<Rightarrow> 'u ast_entry list" where
  "first_order_entries cs = filter (\<lambda>i. length (diffvars i) = 1) (tree_data cs)"

definition retmap_add :: "(int \<rightharpoonup> real) \<Rightarrow> int \<Rightarrow> real \<Rightarrow> (int \<rightharpoonup> real)" where
  "retmap_add retmap varindex v =
     retmap(varindex \<mapsto> (case retmap varindex of None \<Rightarrow> 0 | Some old \<Rightarrow> old) + v)"

definition gradient_entry ::
  "'u evaluator \<Rightarrow> 'u CompositionSet \<Rightarrow> evalconditions \<Rightarrow> (string \<times> int) list \<Rightarrow> real list
     \<Rightarrow> 'u ast_entry \<Rightarrow> (int \<rightharpoonup> real) option \<Rightarrow> (int \<rightharpoonup> real) option" where
  "gradient_entry process_utree cs conditions main_indices x i st =
     (let compset_name = cset_name cs @ ''_FRAC'' in
      case st of
        None \<Rightarrow> None
      | Some retmap \<Rightarrow>
          (case process_utree (ast i) conditions main_indices (symbols cs) x of
             None \<Rightarrow> None
           | Some diffvalue \<Rightarrow>
               let diffvar = hd (diffvars i) in
               (case map_of main_indices diffvar of
                  None \<Rightarrow> None
                | Some varindex \<Rightarrow>
                    if diffvar \<noteq> compset_name then
                      (case map_of main_indices compset_name of
                         None \<Rightarrow> None
                       | Some fracindex \<Rightarrow>
                           (case array_read x fracindex of
                              None \<Rightarrow> None
                            | Some phase_fraction \<Rightarrow>
                                Some (retmap_add retmap varindex (phase_fraction * diffvalue))))
                    else Some (retmap_add retmap varindex diffvalue))))"

definition evaluate_objective_gradient ::
  "'u evaluator \<Rightarrow> 'u CompositionSet \<Rightarrow> evalconditions \<Rightarrow> (string \<times> int) list \<Rightarrow> real list
     \<Rightarrow> (int \<rightharpoonup> real) option" where
  "evaluate_objective_gradient process_utree cs conditions main_indices x =
     fold (gradient_entry process_utree cs conditions main_indices x)
          (first_order_entries cs)
          (Some (map_of (map (\<lambda>i. (snd i, 0)) main_indices)))"

text \<open>
  \<open>evaluate_internal_objective_gradient\<close>. \<open>x_copy\<close> is filled from \<open>x\<close> once, before
  the loop. The body of the loop writes \<open>x_copy[i]\<close> twice and leaves the second value
  there.
\<close>

definition perturbation :: real where
  "perturbation = 1 / 10 ^ 7"

definition internal_gradient_step ::
  "'u evaluator \<Rightarrow> 'u CompositionSet \<Rightarrow> evalconditions \<Rightarrow> real list \<Rightarrow> nat
     \<Rightarrow> (real list \<times> real list) option \<Rightarrow> (real list \<times> real list) option" where
  "internal_gradient_step process_utree cs conditions x i st =
     (case st of
        None \<Rightarrow> None
      | Some (x_copy, gradient) \<Rightarrow>
          let x_lower = x_copy[i := x ! i - perturbation] in
          (case evaluate_objective process_utree cs conditions (phase_indices cs) x_lower of
             None \<Rightarrow> None
           | Some lower_obj \<Rightarrow>
               let x_upper = x_lower[i := x ! i + perturbation] in
               (case evaluate_objective process_utree cs conditions (phase_indices cs) x_upper of
                  None \<Rightarrow> None
                | Some upper_obj \<Rightarrow>
                    Some (x_upper,
                          gradient[i := (upper_obj - lower_obj) / (2 * perturbation)]))))"

definition evaluate_internal_objective_gradient ::
  "'u evaluator \<Rightarrow> 'u CompositionSet \<Rightarrow> evalconditions \<Rightarrow> real list \<Rightarrow> real list option" where
  "evaluate_internal_objective_gradient process_utree cs conditions x =
     (let n = length (phase_indices cs) in
      if length x < n then None
      else map_option snd
             (fold (internal_gradient_step process_utree cs conditions x) [0..<n]
                   (Some (take n x, replicate n 0))))"

section \<open>Cloning a composition set\<close>

text \<open>
  The constructor \<open>CompositionSet ( other, new_starting_point, new_name )\<close>. It calls
  \<open>clone_with_renamed_phase\<close>, \<open>ast_copy_with_renamed_phase\<close> (on every container)
  and \<open>ast_variable_rename\<close>, none of which is among the sources: the renaming of a
  name and the renaming of a tree are parameters \<open>rename_name\<close> and \<open>rename_ast\<close>.

  Modelled from the spec: what \<open>ast_copy_with_renamed_phase\<close> does to each container
  (ast_container_rename.hpp and ast_multi_index_rename.hpp are missing). Following "internal
  trees and variable maps have every occurrence of the old phase name textually replaced",
  an entry of the tree containers has its differentiating variables and its tree renamed,
  the symbol table its names and its trees, and the index bimap its names.
\<close>

definition rename_entry ::
  "(string \<Rightarrow> string \<Rightarrow> string \<Rightarrow> string) \<Rightarrow> (string \<Rightarrow> string \<Rightarrow> 'u \<Rightarrow> 'u)
     \<Rightarrow> string \<Rightarrow> string \<Rightarrow> 'u ast_entry \<Rightarrow> 'u ast_entry" where
  "rename_entry rename_name rename_ast old_phase_name new_phase_name i =
     \<lparr>diffvars = map (rename_name old_phase_name new_phase_name) (diffvars i),
      model_name = model_name i,
      ast = rename_ast old_phase_name new_phase_name (ast i)\<rparr>"

definition rename_indices ::
  "(string \<Rightarrow> string \<Rightarrow> string \<Rightarrow> string) \<Rightarrow> string \<Rightarrow> string \<Rightarrow> (string \<times> int) list
     \<Rightarrow> (string \<times> int) list" where
  "rename_indices rename_name old_phase_name new_phase_name indices =
     map (\<lambda>i. (rename_name old_phase_name new_phase_name (fst i), snd i)) indices"

definition rename_symbols ::
  "(string \<Rightarrow> string \<Rightarrow> string \<Rightarrow> string) \<Rightarrow> (string \<Rightarrow> string \<Rightarrow> 'u \<Rightarrow> 'u)
     \<Rightarrow> string \<Rightarrow> string \<Rightarrow> (string \<times> 'u) list \<Rightarrow> (string \<times> 'u) list" where
  "rename_symbols rename_name rename_ast old_phase_name new_phase_name symbol_table =
     map (\<lambda>i. (rename_name old_phase_name new_phase_name (fst i),
                rename_ast old_phase_name new_phase_name (snd i))) symbol_table"

definition CompositionSet_clone ::
  "(string \<Rightarrow> string \<Rightarrow> string \<Rightarrow> string) \<Rightarrow> (string \<Rightarrow> string \<Rightarrow> 'u \<Rightarrow> 'u)
     \<Rightarrow> 'u CompositionSet \<Rightarrow> (string \<times> real) list \<Rightarrow> string \<Rightarrow> 'u CompositionSet" where
  "CompositionSet_clone rename_name rename_ast other new_starting_point new_name =
     (let old_phase_name = cset_name other; new_phase_name = new_name in
      \<lparr>cset_name = new_name,
       starting_point = new_starting_point,
       models = map (\<lambda>energymod. (fst energymod,
                                    rename_ast old_phase_name new_phase_name (snd energymod)))
                    (models other),
       jac_g_trees = map (\<lambda>j. \<lparr>cons_index = cons_index j, var_index = var_index j,
                                  jac_constant = jac_constant j,
                                  jac_ast = rename_ast old_phase_name new_phase_name (jac_ast j)\<rparr>)
                         (jac_g_trees other),
       hessian_data = map (rename_entry rename_name rename_ast old_phase_name new_phase_name)
                          (hessian_data other),
       tree_data = map (rename_entry rename_name rename_ast old_phase_name new_phase_name)
                       (tree_data other),
       first_derivatives = map (rename_entry rename_name rename_ast old_phase_name new_phase_name)
                               (first_derivatives other),
       symbols = rename_symbols rename_name rename_ast old_phase_name new_phase_name
                   (symbols other),
       constraints = map (\<lambda>old_cons. \<lparr>lhs = rename_ast old_phase_name new_phase_name (lhs old_cons),
                                         rhs = rename_ast old_phase_name new_phase_name (rhs old_cons)\<rparr>)
                         (constraints other),
       phase_indices = rename_indices rename_name old_phase_name new_phase_name
                         (phase_indices other),
       constraint_null_space_matrix = constraint_null_space_matrix other\<rparr>)"

section \<open>Expression trees, their evaluation and their renaming\<close>

text \<open>
  Modelled from the spec: the expression tree (\<open>boost::spirit::utree\<close> is used
  through headers that are missing). The arms are those of the specification's design
  note: constant, variable, symbol reference, binary \<open>+ - * / ^\<close>, unary \<open>log\<close>
  and \<open>exp\<close>, and a conditional on the range of a state variable, here with the tree for
  the range and the tree for the rest.
\<close>

datatype binary_op = Plus | Minus | Times | Divide | Power

datatype unary_op = Log | Exp

datatype utree =
    Constant real
  | Variable string
  | SymbolRef string
  | Binary binary_op utree utree
  | Unary unary_op utree
  | Piecewise char real real utree utree

text \<open>
  Modelled from the spec: \<open>process_utree\<close> (declared in math_expr.hpp, defined
  outside the sources). A variable resolves through the name-to-index map into \<open>x\<close>, or
  else, when its name is one character, as a state variable of the conditions; a symbol
  resolves through the symbol table, whose tree is evaluated with the same bindings.
  Evaluation fails on a missing binding and on a domain error (division by zero, \<open>log\<close>
  of a non-positive number, a power \<open>std::pow\<close> does not define). Symbols may refer to
  each other in a cycle, so the evaluator takes fuel and fails when it runs out.
\<close>

definition apply_binary :: "binary_op \<Rightarrow> real \<Rightarrow> real \<Rightarrow> real option" where
  "apply_binary op a b =
     (case op of
        Plus \<Rightarrow> Some (a + b)
      | Minus \<Rightarrow> Some (a - b)
      | Times \<Rightarrow> Some (a * b)
      | Divide \<Rightarrow> (if b = 0 then None else Some (a / b))
      | Power \<Rightarrow> (if 0 < a then Some (a powr b)
                  else if b = of_int \<lfloor>b\<rfloor>
                       then (if a = 0 \<and> b < 0 then None else Some (a powi \<lfloor>b\<rfloor>))
                  else if a = 0 \<and> 0 < b then Some 0
                  else None))"

definition apply_unary :: "unary_op \<Rightarrow> real \<Rightarrow> real option" where
  "apply_unary op a =
     (case op of
        Log \<Rightarrow> (if 0 < a then Some (ln a) else None)
      | Exp \<Rightarrow> Some (exp a))"

definition state_variable :: "evalconditions \<Rightarrow> string \<Rightarrow> real option" where
  "state_variable conditions name =
     (case name of
        [c] \<Rightarrow> map_of (statevars conditions) c
      | _ \<Rightarrow> None)"

fun eval_utree ::
  "nat \<Rightarrow> utree \<Rightarrow> evalconditions \<Rightarrow> (string \<times> int) list \<Rightarrow> (string \<times> utree) list \<Rightarrow> real list
     \<Rightarrow> real option" where
  "eval_utree 0 t conditions main_indices symbol_table x = None"
| "eval_utree (Suc fuel) (Constant v) conditions main_indices symbol_table x = Some v"
| "eval_utree (Suc fuel) (Variable name) conditions main_indices symbol_table x =
     (case map_of main_indices name of
        Some i \<Rightarrow> array_read x i
      | None \<Rightarrow> state_variable conditions name)"
| "eval_utree (Suc fuel) (SymbolRef name) conditions main_indices symbol_table x =
     (case map_of symbol_table name of
        None \<Rightarrow> None
      | Some t \<Rightarrow> eval_utree fuel t conditions main_indices symbol_table x)"
| "eval_utree (Suc fuel) (Binary op l r) conditions main_indices symbol_table x =
     (case eval_utree fuel l conditions main_indices symbol_table x of
        None \<Rightarrow> None
      | Some a \<Rightarrow>
          (case eval_utree fuel r conditions main_indices symbol_table x of
             None \<Rightarrow> None
           | Some b \<Rightarrow> apply_binary op a b))"
| "eval_utree (Suc fuel) (Unary op t) conditions main_indices symbol_table x =
     (case eval_utree fuel t conditions main_indices symbol_table x of
        None \<Rightarrow> None
      | Some a \<Rightarrow> apply_unary op a)"
| "eval_utree (Suc fuel) (Piecewise c low high t e) conditions main_indices symbol_table x =
     (case map_of (statevars conditions) c of
        None \<Rightarrow> None
      | Some v \<Rightarrow>
          if low \<le> v \<and> v < high
          then eval_utree fuel t conditions main_indices symbol_table x
          else eval_utree fuel e conditions main_indices symbol_table x)"

text \<open>
  Modelled from the spec: the textual replacement of every occurrence of the old phase
  name by the new one, from left to right, and \<open>ast_variable_rename\<close>
  (ast_variable_rename.hpp is missing), which applies it to the names in a tree.
\<close>

fun replace_all :: "string \<Rightarrow> string \<Rightarrow> string \<Rightarrow> string" where
  "replace_all old new [] = []"
| "replace_all old new (c # cs) =
     (if old \<noteq> [] \<and> take (length old) (c # cs) = old
      then new @ replace_all old new (drop (length old) (c # cs))
      else c # replace_all old new cs)"

fun ast_variable_rename :: "string \<Rightarrow> string \<Rightarrow> utree \<Rightarrow> utree" where
  "ast_variable_rename old new (Constant v) = Constant v"
| "ast_variable_rename old new (Variable name) = Variable (replace_all old new name)"
| "ast_variable_rename old new (SymbolRef name) = SymbolRef (replace_all old new name)"
| "ast_variable_rename old new (Binary op l r) =
     Binary op (ast_variable_rename old new l) (ast_variable_rename old new r)"
| "ast_variable_rename old new (Unary op t) = Unary op (ast_variable_rename old new t)"
| "ast_variable_rename old new (Piecewise c low high t e) =
     Piecewise c low high (ast_variable_rename old new t) (ast_variable_rename old new e)"

section \<open>Definitions used to state the claims\<close>

text \<open>
  Two functions that meet \<open>std_sort_contract\<close>: insertion sort by area, which keeps
  facets of equal area in their order, and the same sort run on the reversed list, which
  reverses them.
\<close>

definition stable_sort_by_area :: "simplicial_facet list \<Rightarrow> simplicial_facet list" where
  "stable_sort_by_area fs = sort_key area fs"





text \<open>
  An evaluator to run the composition-set functions with: a tree is given as the
  function from \<open>x\<close> to its value, and evaluation applies it.
\<close>

definition denotation_evaluator :: "(real list \<Rightarrow> real) evaluator" where
  "denotation_evaluator tree conditions main_indices symbol_table x = Some (tree x)"

text \<open>
  The specification's wording of the gradient: the value of a first-derivative tree,
  multiplied by \<open>x[_FRAC]\<close> unless the tree is the derivative with respect to
  \<open>_FRAC\<close> itself. \<open>entry_defined\<close> says that evaluating an entry throws nothing,
  and \<open>accumulated\<close> is the sum of the weighted values of the entries whose
  differentiating variable has index \<open>k\<close>.
\<close>

definition weighted_derivative ::
  "'u evaluator \<Rightarrow> 'u CompositionSet \<Rightarrow> evalconditions \<Rightarrow> (string \<times> int) list \<Rightarrow> real list
     \<Rightarrow> 'u ast_entry \<Rightarrow> real option" where
  "weighted_derivative process_utree cs conditions main_indices x i =
     (case process_utree (ast i) conditions main_indices (symbols cs) x of
        None \<Rightarrow> None
      | Some diffvalue \<Rightarrow>
          if hd (diffvars i) = cset_name cs @ ''_FRAC'' then Some diffvalue
          else (case map_of main_indices (cset_name cs @ ''_FRAC'') of
                  None \<Rightarrow> None
                | Some fracindex \<Rightarrow>
                    (case array_read x fracindex of
                       None \<Rightarrow> None
                     | Some phase_fraction \<Rightarrow> Some (phase_fraction * diffvalue))))"

definition entries_of_index ::
  "(string \<times> int) list \<Rightarrow> int \<Rightarrow> 'u ast_entry list \<Rightarrow> 'u ast_entry list" where
  "entries_of_index main_indices k entries =
     filter (\<lambda>i. map_of main_indices (hd (diffvars i)) = Some k) entries"

definition entry_defined ::
  "'u evaluator \<Rightarrow> 'u CompositionSet \<Rightarrow> evalconditions \<Rightarrow> (string \<times> int) list \<Rightarrow> real list
     \<Rightarrow> 'u ast_entry \<Rightarrow> bool" where
  "entry_defined process_utree cs conditions main_indices x i =
     (weighted_derivative process_utree cs conditions main_indices x i \<noteq> None \<and>
      map_of main_indices (hd (diffvars i)) \<noteq> None)"

definition accumulated ::
  "'u evaluator \<Rightarrow> 'u CompositionSet \<Rightarrow> evalconditions \<Rightarrow> (string \<times> int) list \<Rightarrow> real list
     \<Rightarrow> 'u ast_entry list \<Rightarrow> int \<Rightarrow> real" where
  "accumulated process_utree cs conditions main_indices x entries k =
     sum_list (map (\<lambda>i. the (weighted_derivative process_utree cs conditions main_indices x i))
                   (entries_of_index main_indices k entries))"

text \<open>
  The specification's wording of the finite difference at coordinate \<open>i\<close>: the
  objective at \<open>x\<close> with coordinate \<open>i\<close> raised by the perturbation, minus the objective
  at \<open>x\<close> with coordinate \<open>i\<close> lowered by it, over twice the perturbation; the other
  coordinates are those of \<open>x\<close>.
\<close>

definition central_difference :: "(real list \<Rightarrow> real option) \<Rightarrow> real list \<Rightarrow> nat \<Rightarrow> real option" where
  "central_difference f x i =
     (case f (x[i := x ! i + perturbation]) of
        None \<Rightarrow> None
      | Some upper_obj \<Rightarrow>
          (case f (x[i := x ! i - perturbation]) of
             None \<Rightarrow> None
           | Some lower_obj \<Rightarrow> Some ((upper_obj - lower_obj) / (2 * perturbation))))"

text \<open>
  The names that evaluating a composition set looks up: the variables and the symbols of
  its trees, the names of its symbol table and the differentiating variables of its
  first-derivative entries. \<open>rename_safe\<close> is the condition of the amended claim C9:
  the replacement is one-to-one on the variables together with the names of the index
  map, and on the symbols; it turns the name of the phase fraction into the clone's; and
  it leaves a variable that the index map does not hold (a state variable) as it is.
\<close>

fun utree_variables :: "utree \<Rightarrow> string set" where
  "utree_variables (Constant v) = {}"
| "utree_variables (Variable name) = {name}"
| "utree_variables (SymbolRef name) = {}"
| "utree_variables (Binary op l r) = utree_variables l \<union> utree_variables r"
| "utree_variables (Unary op t) = utree_variables t"
| "utree_variables (Piecewise c low high t e) = utree_variables t \<union> utree_variables e"

fun utree_symbols :: "utree \<Rightarrow> string set" where
  "utree_symbols (Constant v) = {}"
| "utree_symbols (Variable name) = {}"
| "utree_symbols (SymbolRef name) = {name}"
| "utree_symbols (Binary op l r) = utree_symbols l \<union> utree_symbols r"
| "utree_symbols (Unary op t) = utree_symbols t"
| "utree_symbols (Piecewise c low high t e) = utree_symbols t \<union> utree_symbols e"

definition cs_trees :: "utree CompositionSet \<Rightarrow> utree set" where
  "cs_trees cs = snd ` set (models cs) \<union> ast ` set (tree_data cs) \<union> snd ` set (symbols cs)"

definition cs_variables :: "utree CompositionSet \<Rightarrow> string set" where
  "cs_variables cs = \<Union> (utree_variables ` cs_trees cs)"

definition cs_symbols :: "utree CompositionSet \<Rightarrow> string set" where
  "cs_symbols cs = \<Union> (utree_symbols ` cs_trees cs) \<union> fst ` set (symbols cs)"

definition cs_diffvars :: "utree CompositionSet \<Rightarrow> string set" where
  "cs_diffvars cs = (\<lambda>i. hd (diffvars i)) ` set (first_order_entries cs)"

definition rename_safe ::
  "string \<Rightarrow> utree CompositionSet \<Rightarrow> (string \<times> int) list \<Rightarrow> bool" where
  "rename_safe new_name cs main_indices =
     (inj_on (replace_all (cset_name cs) new_name)
        (cs_variables cs \<union> cs_diffvars cs \<union> {cset_name cs @ ''_FRAC''} \<union>
         fst ` set main_indices) \<and>
      inj_on (replace_all (cset_name cs) new_name) (cs_symbols cs) \<and>
      replace_all (cset_name cs) new_name (cset_name cs @ ''_FRAC'') = new_name @ ''_FRAC'' \<and>
      (\<forall>name \<in> cs_variables cs.
         name \<notin> fst ` set main_indices \<longrightarrow> replace_all (cset_name cs) new_name name = name))"

section \<open>Inputs of the examples\<close>

text \<open>
  A binary system A-B with the phases ALPHA and BETA and the end-member energies of the
  specification's second scenario. The four hull points are the end members; Qhull drops
  coordinate 1 and works on (x(A), energy), where the hull is a rectangle.
\<close>

definition c1_points :: "real list list" where
  "c1_points = [[1, 0, 0], [0, 1, 10000], [1, 0, 10000], [0, 1, 0]]"

definition c1_qhull_facets :: "qhull_facet list" where
  "c1_qhull_facets =
     [\<lparr>isDefined = True, isGood = True, isSimplicial = True, hyperplane = [0, - 1],
        facet_vertices = [\<lparr>vertex_point_id = 0, vertex_point = [1, 0]\<rparr>,
                          \<lparr>vertex_point_id = 3, vertex_point = [0, 0]\<rparr>],
        facetArea = 1\<rparr>,
      \<lparr>isDefined = True, isGood = True, isSimplicial = True, hyperplane = [0, 1],
        facet_vertices = [\<lparr>vertex_point_id = 1, vertex_point = [0, 10000]\<rparr>,
                          \<lparr>vertex_point_id = 2, vertex_point = [1, 10000]\<rparr>],
        facetArea = 1\<rparr>,
      \<lparr>isDefined = True, isGood = True, isSimplicial = True, hyperplane = [- 1, 0],
        facet_vertices = [\<lparr>vertex_point_id = 3, vertex_point = [0, 0]\<rparr>,
                          \<lparr>vertex_point_id = 1, vertex_point = [0, 10000]\<rparr>],
        facetArea = 10000\<rparr>,
      \<lparr>isDefined = True, isGood = True, isSimplicial = True, hyperplane = [1, 0],
        facet_vertices = [\<lparr>vertex_point_id = 0, vertex_point = [1, 0]\<rparr>,
                          \<lparr>vertex_point_id = 2, vertex_point = [1, 10000]\<rparr>],
        facetArea = 10000\<rparr>]"

definition c1_qhull :: hull_engine where
  "c1_qhull points dims =
     (if points = c1_points \<and> dims = [1] then Some c1_qhull_facets else None)"

definition c1_facets :: "simplicial_facet list" where
  "c1_facets =
     [\<lparr>vertices = [0, 3], normal = [0, - 1], area = 1, basis_matrix = [[1, 0], [1, 1]]\<rparr>,
      \<lparr>vertices = [3, 1], normal = [- 1, 0], area = 10000, basis_matrix = [[0, 0], [1, 1]]\<rparr>,
      \<lparr>vertices = [0, 2], normal = [1, 0], area = 10000, basis_matrix = [[1, 1], [1, 1]]\<rparr>]"

definition c1_hull_map :: "hull_entry list" where
  "c1_hull_map =
     [\<lparr>phase_name = ''ALPHA'', internal_coordinates = [1, 0],
        global_coordinates = [(''A'', 1), (''B'', 0)], energy = 0, global_hull_status = True\<rparr>,
      \<lparr>phase_name = ''ALPHA'', internal_coordinates = [0, 1],
        global_coordinates = [(''A'', 0), (''B'', 1)], energy = 10000,
        global_hull_status = True\<rparr>,
      \<lparr>phase_name = ''BETA'', internal_coordinates = [1, 0],
        global_coordinates = [(''A'', 1), (''B'', 0)], energy = 10000,
        global_hull_status = True\<rparr>,
      \<lparr>phase_name = ''BETA'', internal_coordinates = [0, 1],
        global_coordinates = [(''A'', 0), (''B'', 1)], energy = 0, global_hull_status = True\<rparr>]"

definition c1_gm :: global_minimizer where
  "c1_gm = \<lparr>hull_map = c1_hull_map, candidate_facets = c1_facets,
            critical_edge_length = 5 / 100, initial_subdivisions_per_axis = 20,
            refinement_subdivisions_per_axis = 2, max_search_depth = 5,
            discard_unstable = True\<rparr>"

definition c1_conditions :: evalconditions where
  "c1_conditions = \<lparr>statevars = [(CHR ''T'', 300)], elements = [''A'', ''B''],
                    phases = [(''ALPHA'', ENTERED), (''BETA'', ENTERED)],
                    xfrac = [(''A'', 7 / 10)]\<rparr>"

text \<open>
  A quaternary system: three hull points of ALPHA close to each other and one of BETA,
  on one facet of the global hull.
\<close>

definition c5_hull_map :: "hull_entry list" where
  "c5_hull_map =
     [\<lparr>phase_name = ''ALPHA'', internal_coordinates = [50 / 100, 50 / 100, 0, 0],
        global_coordinates = [(''A'', 50 / 100), (''B'', 50 / 100), (''C'', 0), (''D'', 0)],
        energy = - 5000, global_hull_status = True\<rparr>,
      \<lparr>phase_name = ''ALPHA'', internal_coordinates = [52 / 100, 48 / 100, 0, 0],
        global_coordinates = [(''A'', 52 / 100), (''B'', 48 / 100), (''C'', 0), (''D'', 0)],
        energy = - 5000, global_hull_status = True\<rparr>,
      \<lparr>phase_name = ''ALPHA'', internal_coordinates = [49 / 100, 49 / 100, 2 / 100, 0],
        global_coordinates = [(''A'', 49 / 100), (''B'', 49 / 100), (''C'', 2 / 100), (''D'', 0)],
        energy = - 5000, global_hull_status = True\<rparr>,
      \<lparr>phase_name = ''BETA'', internal_coordinates = [1],
        global_coordinates = [(''A'', 0), (''B'', 0), (''C'', 0), (''D'', 1)],
        energy = - 5000, global_hull_status = True\<rparr>]"

definition c5_facet :: simplicial_facet where
  "c5_facet =
     \<lparr>vertices = [0, 1, 2, 3], normal = [0, 0, 0, - 1], area = 1 / 15000,
       basis_matrix = [[50 / 100, 52 / 100, 49 / 100, 0],
                       [50 / 100, 48 / 100, 49 / 100, 0],
                       [0, 0, 2 / 100, 0],
                       [1, 1, 1, 1]]\<rparr>"

definition c5_gm :: global_minimizer where
  "c5_gm = \<lparr>hull_map = c5_hull_map, candidate_facets = [c5_facet],
            critical_edge_length = 5 / 100, initial_subdivisions_per_axis = 20,
            refinement_subdivisions_per_axis = 2, max_search_depth = 5,
            discard_unstable = True\<rparr>"

definition c5_conditions :: evalconditions where
  "c5_conditions = \<lparr>statevars = [(CHR ''T'', 1000)], elements = [''A'', ''B'', ''C'', ''D''],
                    phases = [(''ALPHA'', ENTERED), (''BETA'', ENTERED)],
                    xfrac = [(''A'', 40 / 100), (''B'', 40 / 100), (''C'', 1 / 100)]\<rparr>"










text \<open>
  A phase with one sublattice (A,B): points are (y(A), y(B), energy), the dependent
  dimension is 1 and Qhull works on (y(A), energy). The lower hull has a long edge
  between two short ones; \<open>c2_objective\<close> is the energy callback, with the energies of
  the sampled points and 1/5 at the middle of the long edge.
\<close>

definition c2_points :: "real list list" where
  "c2_points =
     [[0, 1, 0],
      [3 / 100, 97 / 100, - (4 / 100)],
      [97 / 100, 3 / 100, - (4 / 100)],
      [1, 0, 0]]"

definition c2_qhull_facets :: "qhull_facet list" where
  "c2_qhull_facets =
     [\<lparr>isDefined = True, isGood = True, isSimplicial = True,
        hyperplane = [- (4 / 5), - (3 / 5)],
        facet_vertices = [\<lparr>vertex_point_id = 0, vertex_point = [0, 0]\<rparr>,
                          \<lparr>vertex_point_id = 1, vertex_point = [3 / 100, - (4 / 100)]\<rparr>],
        facetArea = 5 / 100\<rparr>,
      \<lparr>isDefined = True, isGood = True, isSimplicial = True,
        hyperplane = [0, - 1],
        facet_vertices = [\<lparr>vertex_point_id = 1, vertex_point = [3 / 100, - (4 / 100)]\<rparr>,
                          \<lparr>vertex_point_id = 2, vertex_point = [97 / 100, - (4 / 100)]\<rparr>],
        facetArea = 94 / 100\<rparr>,
      \<lparr>isDefined = True, isGood = True, isSimplicial = True,
        hyperplane = [4 / 5, - (3 / 5)],
        facet_vertices = [\<lparr>vertex_point_id = 2, vertex_point = [97 / 100, - (4 / 100)]\<rparr>,
                          \<lparr>vertex_point_id = 3, vertex_point = [1, 0]\<rparr>],
        facetArea = 5 / 100\<rparr>,
      \<lparr>isDefined = True, isGood = True, isSimplicial = True,
        hyperplane = [0, 1],
        facet_vertices = [\<lparr>vertex_point_id = 0, vertex_point = [0, 0]\<rparr>,
                          \<lparr>vertex_point_id = 3, vertex_point = [1, 0]\<rparr>],
        facetArea = 1\<rparr>]"

definition c2_qhull :: hull_engine where
  "c2_qhull points dims =
     (if points = c2_points \<and> dims = [1] then Some c2_qhull_facets else None)"

definition c2_objective :: "real list \<Rightarrow> real" where
  "c2_objective point =
     (if point = [1 / 2, 1 / 2] then 1 / 5
      else if point = [3 / 100, 97 / 100] then - (4 / 100)
      else if point = [97 / 100, 3 / 100] then - (4 / 100)
      else 0)"

definition c2_candidate_points :: "real list list" where
  "c2_candidate_points =
     [[0, 1], [3 / 100, 97 / 100],
      [3 / 100, 97 / 100], [97 / 100, 3 / 100],
      [97 / 100, 3 / 100], [1, 0]]"

text \<open>
  A composition set of the phase ALPHA with one sublattice (A,B) and the regular-solution
  energy 20000 y(A) y(B); \<open>c8_cs\<close> also holds its derivative trees, the one with respect
  to \<open>ALPHA_FRAC\<close> being the energy itself.
\<close>

definition c4_cs :: "(real list \<Rightarrow> real) CompositionSet" where
  "c4_cs =
     \<lparr>cset_name = ''ALPHA'',
      starting_point = [],
      models = [(''REDLICH_KISTER'', \<lambda>x. 20000 * (x ! 0) * (x ! 1))],
      jac_g_trees = [],
      hessian_data = [],
      tree_data = [],
      first_derivatives = [],
      symbols = [],
      constraints = [],
      phase_indices = [(''ALPHA_0_A'', 0), (''ALPHA_0_B'', 1)],
      constraint_null_space_matrix = []\<rparr>"

definition c4_conditions :: evalconditions where
  "c4_conditions = \<lparr>statevars = [(CHR ''T'', 300)], elements = [''A'', ''B''],
                    phases = [(''ALPHA'', ENTERED)], xfrac = [(''B'', 1 / 2)]\<rparr>"

definition c8_cs :: "(real list \<Rightarrow> real) CompositionSet" where
  "c8_cs =
     \<lparr>cset_name = ''ALPHA'',
      starting_point = [],
      models = [(''REDLICH_KISTER'', \<lambda>x. 20000 * (x ! 0) * (x ! 1))],
      jac_g_trees = [],
      hessian_data = [],
      tree_data =
        [\<lparr>diffvars = [''ALPHA_0_A''], model_name = ''REDLICH_KISTER'',
           ast = (\<lambda>x. 20000 * (x ! 1))\<rparr>,
         \<lparr>diffvars = [''ALPHA_0_A'', ''ALPHA_0_B''], model_name = ''REDLICH_KISTER'',
           ast = (\<lambda>x. 20000)\<rparr>,
         \<lparr>diffvars = [''ALPHA_0_B''], model_name = ''REDLICH_KISTER'',
           ast = (\<lambda>x. 20000 * (x ! 0))\<rparr>,
         \<lparr>diffvars = [''ALPHA_FRAC''], model_name = ''REDLICH_KISTER'',
           ast = (\<lambda>x. 20000 * (x ! 0) * (x ! 1))\<rparr>],
      first_derivatives = [],
      symbols = [],
      constraints = [],
      phase_indices = [(''ALPHA_0_A'', 0), (''ALPHA_0_B'', 1)],
      constraint_null_space_matrix = []\<rparr>"

definition c8_main_indices :: "(string \<times> int) list" where
  "c8_main_indices = [(''ALPHA_0_A'', 0), (''ALPHA_0_B'', 1), (''ALPHA_FRAC'', 2)]"

text \<open>
  Two composition sets with trees: \<open>c9_cs\<close>, the phase ALPHA with the energy
  L0 y(A) y(B) and the symbol L0 = 20000 - 2 T, and \<open>c9_short_cs\<close>, a phase named A
  with the species X and Y.
\<close>

definition c9_cs :: "utree CompositionSet" where
  "c9_cs =
     \<lparr>cset_name = ''ALPHA'',
      starting_point = [],
      models = [(''REDLICH_KISTER'',
                 Binary Times (Binary Times (SymbolRef ''ALPHA_L0'') (Variable ''ALPHA_0_A''))
                              (Variable ''ALPHA_0_B''))],
      jac_g_trees = [],
      hessian_data = [],
      tree_data =
        [\<lparr>diffvars = [''ALPHA_0_A''], model_name = ''REDLICH_KISTER'',
           ast = Binary Times (SymbolRef ''ALPHA_L0'') (Variable ''ALPHA_0_B'')\<rparr>,
         \<lparr>diffvars = [''ALPHA_0_B''], model_name = ''REDLICH_KISTER'',
           ast = Binary Times (SymbolRef ''ALPHA_L0'') (Variable ''ALPHA_0_A'')\<rparr>,
         \<lparr>diffvars = [''ALPHA_FRAC''], model_name = ''REDLICH_KISTER'',
           ast = Binary Times (Binary Times (SymbolRef ''ALPHA_L0'') (Variable ''ALPHA_0_A''))
                              (Variable ''ALPHA_0_B'')\<rparr>],
      first_derivatives = [],
      symbols = [(''ALPHA_L0'',
                  Binary Minus (Constant 20000) (Binary Times (Constant 2) (Variable ''T'')))],
      constraints = [],
      phase_indices = [(''ALPHA_0_A'', 0), (''ALPHA_0_B'', 1)],
      constraint_null_space_matrix = []\<rparr>"

definition c9_main_indices :: "(string \<times> int) list" where
  "c9_main_indices = [(''ALPHA_0_A'', 0), (''ALPHA_0_B'', 1), (''ALPHA_FRAC'', 2)]"

definition c9_conditions :: evalconditions where
  "c9_conditions = \<lparr>statevars = [(CHR ''T'', 300)], elements = [''A'', ''B''],
                    phases = [(''ALPHA'', ENTERED)], xfrac = [(''B'', 1 / 2)]\<rparr>"

definition c9_short_cs :: "utree CompositionSet" where
  "c9_short_cs =
     \<lparr>cset_name = ''A'',
      starting_point = [],
      models = [(''REDLICH_KISTER'',
                 Binary Times (Binary Times (Constant 20000) (Variable ''A_0_X''))
                              (Variable ''A_0_Y''))],
      jac_g_trees = [],
      hessian_data = [],
      tree_data =
        [\<lparr>diffvars = [''A_0_X''], model_name = ''REDLICH_KISTER'',
           ast = Binary Times (Constant 20000) (Variable ''A_0_Y'')\<rparr>,
         \<lparr>diffvars = [''A_0_Y''], model_name = ''REDLICH_KISTER'',
           ast = Binary Times (Constant 20000) (Variable ''A_0_X'')\<rparr>,
         \<lparr>diffvars = [''A_FRAC''], model_name = ''REDLICH_KISTER'',
           ast = Binary Times (Binary Times (Constant 20000) (Variable ''A_0_X''))
                              (Variable ''A_0_Y'')\<rparr>],
      first_derivatives = [],
      symbols = [],
      constraints = [],
      phase_indices = [(''A_0_X'', 0), (''A_0_Y'', 1)],
      constraint_null_space_matrix = []\<rparr>"

definition c9_short_indices :: "(string \<times> int) list" where
  "c9_short_indices = [(''A_0_X'', 0), (''A_0_Y'', 1), (''A_FRAC'', 2)]"

section \<open>Auxiliary facts\<close>






lemma sqrt_le_numeral_iff: "0 \<le> c \<Longrightarrow> (sqrt s \<le> c) = (s \<le> c\<^sup>2)"
  by (metis real_sqrt_le_iff real_sqrt_abs abs_of_nonneg)

lemma sqrt_gt_numeral_iff: "0 \<le> c \<Longrightarrow> (c < sqrt s) = (c\<^sup>2 < s)"
  by (metis real_sqrt_less_iff real_sqrt_abs abs_of_nonneg)

lemmas no_numeral_division =
  le_divide_eq_numeral1 divide_le_eq_numeral1 less_divide_eq_numeral1 divide_less_eq_numeral1













section \<open>The claims\<close>

subsection \<open>C1: the basis matrix of the resolved facet\<close>

lemma c1_global_hull:
  "global_lower_convex_hull c1_qhull c1_points (5 / 100) (\<lambda>point1_id point2_id. 0) = Some c1_facets"
  by (simp add: global_lower_convex_hull_def c1_qhull_def c1_points_def c1_qhull_facets_def
      c1_facets_def facet_candidates_def new_facet_def)

lemma c1_pre: "pre_candidate_facets c1_gm c1_conditions = c1_facets"
  by (simp add: pre_candidate_facets_def c1_gm_def c1_conditions_def c1_facets_def
      failed_conditions_def prod_mv_def trial_point_def)

lemma c1_sorted: "stable_sort_by_area c1_facets = c1_facets"
  by (simp add: stable_sort_by_area_def c1_facets_def)

lemma c1_tie_points:
  "find_tie_points stable_sort_by_area c1_gm c1_conditions = Some [c1_hull_map ! 0, c1_hull_map ! 3]"
proof -
  have readable: "list_all (facet_readable (hull_map c1_gm) (trial_point c1_conditions))
                    (candidate_facets c1_gm)"
    by (simp add: c1_gm_def c1_conditions_def c1_facets_def c1_hull_map_def facet_readable_def
        trial_point_def)
  have "tie_points_of_facet c1_hull_map (5 / 100) (hd c1_facets)
          = Some [c1_hull_map ! 0, c1_hull_map ! 3]"
    by (simp add: tie_points_of_facet_def c1_facets_def c1_hull_map_def tie_line_step_def
        set_insert_def merge_step_def)
  then show ?thesis
    using readable
    by (simp add: find_tie_points_def c1_pre c1_sorted) (simp add: c1_gm_def c1_facets_def)
qed

text \<open>
  Claim C1 says that for the facet the resolver selects, the product of the stored basis
  matrix with the target point has non-negative components that sum to 1 within 1e-10,
  the stored matrix being the inverse of the matrix of the facet's vertices. In the
  binary example the global hull builder stores the matrix of the vertices itself, the
  resolver selects the lower facet, and the product is (7/10, 17/10), of sum 24/10.
\<close>
theorem resolved_facet_basis_not_inverted:
  "global_lower_convex_hull c1_qhull c1_points (5 / 100) (\<lambda>point1_id point2_id. 0)
     = Some (candidate_facets c1_gm) \<and>
   hd (stable_sort_by_area (pre_candidate_facets c1_gm c1_conditions)) = c1_facets ! 0 \<and>
   find_tie_points stable_sort_by_area c1_gm c1_conditions
     = Some [c1_hull_map ! 0, c1_hull_map ! 3] \<and>
   prod_mv (basis_matrix (c1_facets ! 0)) (trial_point c1_conditions) = [7 / 10, 17 / 10] \<and>
   sum_list (prod_mv (basis_matrix (c1_facets ! 0)) (trial_point c1_conditions)) = 24 / 10 \<and>
   \<not> \<bar>sum_list (prod_mv (basis_matrix (c1_facets ! 0)) (trial_point c1_conditions)) - 1\<bar>
       \<le> 1 / 10 ^ 10"
proof -
  have 1: "global_lower_convex_hull c1_qhull c1_points (5 / 100) (\<lambda>point1_id point2_id. 0)
     = Some (candidate_facets c1_gm)"
    using c1_global_hull by (simp add: c1_gm_def)
  have 2: "hd (stable_sort_by_area (pre_candidate_facets c1_gm c1_conditions)) = c1_facets ! 0"
    by (simp add: c1_pre c1_sorted) (simp add: c1_facets_def)
  have 3: "prod_mv (basis_matrix (c1_facets ! 0)) (trial_point c1_conditions) = [7 / 10, 17 / 10]"
    by (simp add: prod_mv_def c1_facets_def trial_point_def c1_conditions_def)
  show ?thesis using 1 2 3 c1_tie_points by simp
qed

subsection \<open>C2: the edge filter of the internal hull builder\<close>

lemma c2_candidates: "hull_candidate_points c2_qhull c2_points [1] = Some c2_candidate_points"
proof -
  have "map (take (length (hd c2_points))) c2_points = c2_points"
    by (simp add: c2_points_def)
  then show ?thesis
    by (simp add: hull_candidate_points_def c2_qhull_def)
       (simp add: c2_qhull_facets_def facet_candidate_points_def
          restore_dependent_dimensions_def c2_candidate_points_def)
qed

lemma c2_sorted_unique:
  "std_unique too_similar (sort c2_candidate_points)
   = [[0, 1], [3 / 100, 97 / 100], [97 / 100, 3 / 100], [1, 0]]"
  by (simp add: too_similar_def c2_candidate_points_def)

text \<open>
  Claim C2 says that the internal hull builder makes a vertex pair of a lower-hull facet
  candidates only if the edge is longer than \<open>critical_edge_length\<close> and the midpoint's
  true energy exceeds the lever-rule energy by the coplanarity allowance. In the example
  the edge from y(A) = 0 to y(A) = 3/100 is shorter than 5/100 in reduced and in
  restored coordinates, and y(A) = 0 is a vertex of no other lower facet, yet the builder
  returns it: every vertex of every lower facet is returned.
\<close>
theorem internal_hull_keeps_short_edges:
  "internal_lower_convex_hull c2_qhull c2_points [1] (5 / 100) c2_objective
     = Some [[0, 1], [3 / 100, 97 / 100], [97 / 100, 3 / 100], [1, 0]] \<and>
   \<not> sqrt ((3 / 100 - 0)\<^sup>2) > 5 / 100 \<and>
   \<not> sqrt ((3 / 100 - 0)\<^sup>2 + (97 / 100 - 1)\<^sup>2) > 5 / 100"
proof -
  have "length c2_points = 4" "length (hd c2_points) = 3"
       "list_all (\<lambda>pt. 3 \<le> length pt) c2_points"
    by (simp_all add: c2_points_def)
  moreover have "0 < length c2_candidate_points"
    by (simp add: c2_candidate_points_def)
  ultimately have 1: "internal_lower_convex_hull c2_qhull c2_points [1] (5 / 100) c2_objective
     = Some [[0, 1], [3 / 100, 97 / 100], [97 / 100, 3 / 100], [1, 0]]"
    using c2_candidates
    by (simp add: internal_lower_convex_hull_def c2_sorted_unique)
       (simp add: restore_dependent_dimensions_def)
  have 2: "\<not> sqrt ((3 / 100 - 0)\<^sup>2) > (5 / 100 :: real)"
    by (simp add: sqrt_gt_numeral_iff power2_eq_square del: no_numeral_division)
  have 3: "\<not> sqrt ((3 / 100 - 0)\<^sup>2 + (97 / 100 - 1)\<^sup>2) > (5 / 100 :: real)"
    by (simp add: sqrt_gt_numeral_iff power2_eq_square del: no_numeral_division)
  show ?thesis using 1 2 3 by simp
qed

subsection \<open>C3: dependent coordinates of the returned points\<close>







subsection \<open>C4: the finite-difference gradient\<close>

lemma c4_objective:
  "evaluate_objective denotation_evaluator c4_cs c4_conditions mi x
     = Some (20000 * (x ! 0) * (x ! 1))"
  by (simp add: evaluate_objective_def add_model_def denotation_evaluator_def c4_cs_def)

text \<open>
  Claim C4 says that position \<open>i\<close> of \<open>evaluate_internal_objective_gradient\<close> is the
  central difference of the objective at \<open>x\<close> in coordinate \<open>i\<close>, the other coordinates
  held at their values in \<open>x\<close>. For the energy 20000 y(A) y(B) at (1/2, 1/2) the central
  difference in coordinate 1 is 10000; the function returns 10000 + 2/1000 there, the
  central difference at the point whose coordinate 0 is still raised by the perturbation.
\<close>
theorem internal_gradient_keeps_perturbation:
  "evaluate_internal_objective_gradient denotation_evaluator c4_cs c4_conditions [1 / 2, 1 / 2]
     = Some [10000, 10000 + 2 / 1000] \<and>
   central_difference
     (evaluate_objective denotation_evaluator c4_cs c4_conditions (phase_indices c4_cs))
     [1 / 2, 1 / 2] 1 = Some 10000 \<and>
   central_difference
     (evaluate_objective denotation_evaluator c4_cs c4_conditions (phase_indices c4_cs))
     [1 / 2 + perturbation, 1 / 2] 1 = Some (10000 + 2 / 1000)"
proof -
  have n: "length (phase_indices c4_cs) = 2" by (simp add: c4_cs_def)
  have u: "[0..<2] = [0, 1]" by (simp add: upt_rec)
  have r: "replicate 2 (0 :: real) = [0, 0]" by (simp add: numeral_2_eq_2)
  have 1: "evaluate_internal_objective_gradient denotation_evaluator c4_cs c4_conditions
             [1 / 2, 1 / 2] = Some [10000, 10000 + 2 / 1000]"
    by (simp add: evaluate_internal_objective_gradient_def n u r internal_gradient_step_def
        c4_objective Let_def perturbation_def)
  have 2: "central_difference
     (evaluate_objective denotation_evaluator c4_cs c4_conditions (phase_indices c4_cs))
     [1 / 2, 1 / 2] 1 = Some 10000"
    by (simp add: central_difference_def c4_objective perturbation_def)
  have 3: "central_difference
     (evaluate_objective denotation_evaluator c4_cs c4_conditions (phase_indices c4_cs))
     [1 / 2 + perturbation, 1 / 2] 1 = Some (10000 + 2 / 1000)"
    by (simp add: central_difference_def c4_objective perturbation_def)
  show ?thesis using 1 2 3 by simp
qed

subsection \<open>C5: the merge step\<close>

lemma c5_tie_lines:
  "for_each_pair (tie_line_step c5_hull_map (5 / 100)) [0, 1, 2, 3] (Some []) = Some [0, 1, 2, 3]"
  by (simp add: tie_line_step_def c5_hull_map_def internal_distance_def set_insert_def
      sqrt_gt_numeral_iff power2_eq_square del: no_numeral_division)

lemma c5_merge: "merge_step c5_hull_map (5 / 100) [0, 1, 2, 3] = Some [0, 2, 3]"
  by (simp add: merge_step_def c5_hull_map_def internal_distance_def set_erase_def
      sqrt_le_numeral_iff power2_eq_square del: no_numeral_division)

lemma c5_facet_points:
  "tie_points_of_facet c5_hull_map (5 / 100) c5_facet
     = Some [c5_hull_map ! 0, c5_hull_map ! 2, c5_hull_map ! 3]"
  using c5_tie_lines c5_merge
  by (simp add: tie_points_of_facet_def c5_facet_def)

text \<open>
  Claim C5 says that no two returned entries of one phase are within
  \<open>critical_edge_length\<close> of each other, the scan restarting from the beginning after
  each deletion. In the quaternary example the merge step erases id 1 and then never
  compares ids 0 and 2: the resolver returns entries 0, 2 and 3, and entries 0 and 2 are
  both of phase ALPHA at distance sqrt (6/10000), below 5/100.
\<close>
theorem find_tie_points_keeps_near_duplicates:
  "find_tie_points stable_sort_by_area c5_gm c5_conditions
     = Some [c5_hull_map ! 0, c5_hull_map ! 2, c5_hull_map ! 3] \<and>
   phase_name (c5_hull_map ! 0) = phase_name (c5_hull_map ! 2) \<and>
   internal_distance (internal_coordinates (c5_hull_map ! 0))
                     (internal_coordinates (c5_hull_map ! 2)) = Some (sqrt (6 / 10000)) \<and>
   sqrt (6 / 10000) \<le> 5 / 100"
proof -
  have pre: "pre_candidate_facets c5_gm c5_conditions = [c5_facet]"
    by (simp add: pre_candidate_facets_def c5_gm_def c5_conditions_def c5_facet_def
        failed_conditions_def prod_mv_def trial_point_def)
  have readable: "list_all (facet_readable (hull_map c5_gm) (trial_point c5_conditions))
                    (candidate_facets c5_gm)"
    by (simp add: c5_gm_def c5_conditions_def c5_facet_def c5_hull_map_def facet_readable_def
        trial_point_def)
  have 1: "find_tie_points stable_sort_by_area c5_gm c5_conditions
     = Some [c5_hull_map ! 0, c5_hull_map ! 2, c5_hull_map ! 3]"
    using readable c5_facet_points
    by (simp add: find_tie_points_def pre stable_sort_by_area_def) (simp add: c5_gm_def)
  have 2: "phase_name (c5_hull_map ! 0) = phase_name (c5_hull_map ! 2)"
    by (simp add: c5_hull_map_def)
  have 3: "internal_distance (internal_coordinates (c5_hull_map ! 0))
                     (internal_coordinates (c5_hull_map ! 2)) = Some (sqrt (6 / 10000))"
    by (simp add: c5_hull_map_def internal_distance_def power2_eq_square)
  have 4: "sqrt (6 / 10000) \<le> 5 / 100"
    by (simp add: sqrt_le_numeral_iff power2_eq_square del: no_numeral_division)
  show ?thesis using 1 2 3 4 by simp
qed

subsection \<open>C6: fewer points than dimensions\<close>




subsection \<open>C7: the choice of the facet\<close>










subsection \<open>C8: the weighting of the gradient\<close>

lemma gradient_entry_Some:
  "gradient_entry process_utree cs conditions main_indices x i (Some retmap) =
     (case weighted_derivative process_utree cs conditions main_indices x i of
        None \<Rightarrow> None
      | Some w \<Rightarrow>
          (case map_of main_indices (hd (diffvars i)) of
             None \<Rightarrow> None
           | Some varindex \<Rightarrow> Some (retmap_add retmap varindex w)))"
  by (simp add: gradient_entry_def weighted_derivative_def Let_def split: option.splits)

lemma gradient_entry_None:
  "gradient_entry process_utree cs conditions main_indices x i None = None"
  by (simp add: gradient_entry_def)

lemma fold_gradient_entry_None:
  "fold (gradient_entry process_utree cs conditions main_indices x) entries None = None"
  by (induction entries) (simp_all add: gradient_entry_None)

lemma accumulated_Cons:
  "accumulated process_utree cs conditions main_indices x (i # entries) k =
     (if map_of main_indices (hd (diffvars i)) = Some k
      then the (weighted_derivative process_utree cs conditions main_indices x i) +
           accumulated process_utree cs conditions main_indices x entries k
      else accumulated process_utree cs conditions main_indices x entries k)"
  by (simp add: accumulated_def entries_of_index_def)

lemma entries_of_index_Cons:
  "entries_of_index main_indices k (i # entries) =
     (if map_of main_indices (hd (diffvars i)) = Some k
      then i # entries_of_index main_indices k entries
      else entries_of_index main_indices k entries)"
  by (simp add: entries_of_index_def)

lemma fold_gradient_entry_Some:
  assumes "list_all (entry_defined process_utree cs conditions main_indices x) entries"
  shows "fold (gradient_entry process_utree cs conditions main_indices x) entries (Some retmap) =
         Some (\<lambda>k. if k \<in> dom retmap \<or> entries_of_index main_indices k entries \<noteq> []
                    then Some ((case retmap k of None \<Rightarrow> 0 | Some old \<Rightarrow> old) +
                               accumulated process_utree cs conditions main_indices x entries k)
                    else None)"
  using assms
proof (induction entries arbitrary: retmap)
  case Nil
  have acc: "accumulated process_utree cs conditions main_indices x [] k = 0" for k
    by (simp add: accumulated_def entries_of_index_def)
  have eq: "(\<lambda>k. if k \<in> dom retmap \<or> entries_of_index main_indices k [] \<noteq> []
         then Some ((case retmap k of None \<Rightarrow> 0 | Some old \<Rightarrow> old) +
                    accumulated process_utree cs conditions main_indices x [] k)
         else None) = retmap"
  proof (rule ext)
    fix k
    show "(if k \<in> dom retmap \<or> entries_of_index main_indices k [] \<noteq> []
         then Some ((case retmap k of None \<Rightarrow> 0 | Some old \<Rightarrow> old) +
                    accumulated process_utree cs conditions main_indices x [] k)
         else None) = retmap k"
      by (cases "retmap k") (simp_all add: acc entries_of_index_def dom_def)
  qed
  have "fold (gradient_entry process_utree cs conditions main_indices x) [] (Some retmap)
          = Some retmap"
    by simp
  also note arg_cong [where f = Some, OF eq [symmetric]]
  finally show ?case .
next
  case (Cons i entries)
  have d: "entry_defined process_utree cs conditions main_indices x i"
    and rest: "list_all (entry_defined process_utree cs conditions main_indices x) entries"
    using Cons.prems by simp_all
  from d obtain w varindex where
    w: "weighted_derivative process_utree cs conditions main_indices x i = Some w" and
    v: "map_of main_indices (hd (diffvars i)) = Some varindex"
    unfolding entry_defined_def by auto
  have step: "gradient_entry process_utree cs conditions main_indices x i (Some retmap)
                = Some (retmap_add retmap varindex w)"
    by (simp add: gradient_entry_Some w v)
  have pointwise:
    "(if k \<in> dom (retmap_add retmap varindex w) \<or>
         entries_of_index main_indices k entries \<noteq> []
      then Some ((case retmap_add retmap varindex w k of None \<Rightarrow> 0 | Some old \<Rightarrow> old) +
                 accumulated process_utree cs conditions main_indices x entries k)
      else None) =
     (if k \<in> dom retmap \<or> entries_of_index main_indices k (i # entries) \<noteq> []
      then Some ((case retmap k of None \<Rightarrow> 0 | Some old \<Rightarrow> old) +
                 accumulated process_utree cs conditions main_indices x (i # entries) k)
      else None)" for k
  proof (cases "k = varindex")
    case True
    then show ?thesis
      by (simp add: retmap_add_def accumulated_Cons entries_of_index_Cons w v)
  next
    case False
    then show ?thesis
      by (simp add: retmap_add_def accumulated_Cons entries_of_index_Cons w v dom_def)
  qed
  have "fold (gradient_entry process_utree cs conditions main_indices x) (i # entries)
          (Some retmap) =
        fold (gradient_entry process_utree cs conditions main_indices x) entries
          (Some (retmap_add retmap varindex w))"
    by (simp add: step)
  also have "\<dots> = Some (\<lambda>k. if k \<in> dom (retmap_add retmap varindex w) \<or>
                              entries_of_index main_indices k entries \<noteq> []
                    then Some ((case retmap_add retmap varindex w k of
                                  None \<Rightarrow> 0 | Some old \<Rightarrow> old) +
                               accumulated process_utree cs conditions main_indices x entries k)
                    else None)"
    by (rule Cons.IH [OF rest])
  also have "\<dots> = Some (\<lambda>k. if k \<in> dom retmap \<or>
                              entries_of_index main_indices k (i # entries) \<noteq> []
                    then Some ((case retmap k of None \<Rightarrow> 0 | Some old \<Rightarrow> old) +
                               accumulated process_utree cs conditions main_indices x
                                 (i # entries) k)
                    else None)"
    using pointwise by simp
  finally show ?case .
qed

lemma fold_gradient_entry_undefined:
  assumes "\<not> list_all (entry_defined process_utree cs conditions main_indices x) entries"
  shows "fold (gradient_entry process_utree cs conditions main_indices x) entries (Some retmap)
           = None"
  using assms
proof (induction entries arbitrary: retmap)
  case Nil
  then show ?case by simp
next
  case (Cons i entries)
  show ?case
  proof (cases "entry_defined process_utree cs conditions main_indices x i")
    case True
    then obtain w varindex where
      "weighted_derivative process_utree cs conditions main_indices x i = Some w"
      "map_of main_indices (hd (diffvars i)) = Some varindex"
      unfolding entry_defined_def by auto
    then have "gradient_entry process_utree cs conditions main_indices x i (Some retmap)
                 = Some (retmap_add retmap varindex w)"
      by (simp add: gradient_entry_Some)
    moreover have "\<not> list_all (entry_defined process_utree cs conditions main_indices x) entries"
      using Cons.prems True by simp
    ultimately show ?thesis using Cons.IH by simp
  next
    case False
    have "gradient_entry process_utree cs conditions main_indices x i (Some retmap) = None"
    proof (cases "weighted_derivative process_utree cs conditions main_indices x i")
      case None
      then show ?thesis by (simp add: gradient_entry_Some)
    next
      case (Some w)
      then have "map_of main_indices (hd (diffvars i)) = None"
        using False unfolding entry_defined_def by simp
      then show ?thesis using Some by (simp add: gradient_entry_Some)
    qed
    then show ?thesis by (simp add: fold_gradient_entry_None)
  qed
qed

lemma initial_retmap:
  "map_of (map (\<lambda>i. (snd i, 0 :: real)) main_indices) k =
     (if k \<in> snd ` set main_indices then Some 0 else None)"
  by (induction main_indices) auto

lemma entries_of_index_in_range:
  assumes "entries_of_index main_indices k entries \<noteq> []"
  shows "k \<in> snd ` set main_indices"
proof -
  from assms obtain i where "i \<in> set (entries_of_index main_indices k entries)"
    by (cases "entries_of_index main_indices k entries") auto
  then have "map_of main_indices (hd (diffvars i)) = Some k"
    by (simp add: entries_of_index_def)
  then have "(hd (diffvars i), k) \<in> set main_indices" by (rule map_of_SomeD)
  then show ?thesis by (rule image_eqI [rotated]) simp
qed

text \<open>
  Claim C8: \<open>evaluate_objective_gradient\<close> returns, at the index of each variable of
  \<open>main_indices\<close>, the sum of the values of the first-derivative trees for that
  variable, each multiplied by \<open>x[_FRAC]\<close> except the derivative with respect to
  \<open>_FRAC\<close> itself, which is added unweighted; it returns nothing exactly when
  evaluating some entry throws.
\<close>
theorem objective_gradient_weighting:
  "evaluate_objective_gradient process_utree cs conditions main_indices x =
     (if list_all (entry_defined process_utree cs conditions main_indices x)
           (first_order_entries cs)
      then Some (\<lambda>k. if k \<in> snd ` set main_indices
                      then Some (accumulated process_utree cs conditions main_indices x
                                   (first_order_entries cs) k)
                      else None)
      else None)"
proof (cases "list_all (entry_defined process_utree cs conditions main_indices x)
                (first_order_entries cs)")
  case True
  have "evaluate_objective_gradient process_utree cs conditions main_indices x =
        Some (\<lambda>k. if k \<in> dom (map_of (map (\<lambda>i. (snd i, 0 :: real)) main_indices)) \<or>
                      entries_of_index main_indices k (first_order_entries cs) \<noteq> []
                   then Some ((case map_of (map (\<lambda>i. (snd i, 0 :: real)) main_indices) k of
                                 None \<Rightarrow> 0 | Some old \<Rightarrow> old) +
                              accumulated process_utree cs conditions main_indices x
                                (first_order_entries cs) k)
                   else None)"
    unfolding evaluate_objective_gradient_def by (rule fold_gradient_entry_Some [OF True])
  also have "\<dots> = Some (\<lambda>k. if k \<in> snd ` set main_indices
                      then Some (accumulated process_utree cs conditions main_indices x
                                   (first_order_entries cs) k)
                      else None)"
  proof -
    have "(if k \<in> dom (map_of (map (\<lambda>i. (snd i, 0 :: real)) main_indices)) \<or>
                      entries_of_index main_indices k (first_order_entries cs) \<noteq> []
                   then Some ((case map_of (map (\<lambda>i. (snd i, 0 :: real)) main_indices) k of
                                 None \<Rightarrow> 0 | Some old \<Rightarrow> old) +
                              accumulated process_utree cs conditions main_indices x
                                (first_order_entries cs) k)
                   else None) =
          (if k \<in> snd ` set main_indices
                      then Some (accumulated process_utree cs conditions main_indices x
                                   (first_order_entries cs) k)
                      else None)" for k
    proof (cases "k \<in> snd ` set main_indices")
      case True
      then show ?thesis by (simp add: initial_retmap dom_def)
    next
      case False
      then have "entries_of_index main_indices k (first_order_entries cs) = []"
        using entries_of_index_in_range by blast
      then show ?thesis using False by (simp add: initial_retmap dom_def)
    qed
    then show ?thesis by simp
  qed
  finally show ?thesis using True by simp
next
  case False
  then show ?thesis
    unfolding evaluate_objective_gradient_def
    by (simp add: fold_gradient_entry_undefined)
qed

text \<open>
  Claim C8 on the regular-solution example with phase fraction 3/4: the derivatives with
  respect to the site fractions, 10000 each, are accumulated as 7500, and the derivative
  with respect to \<open>ALPHA_FRAC\<close>, the energy 5000, as it is.
\<close>
theorem objective_gradient_weighting_witness:
  "\<exists>retmap.
     evaluate_objective_gradient denotation_evaluator c8_cs c4_conditions c8_main_indices
       [1 / 2, 1 / 2, 3 / 4] = Some retmap \<and>
     retmap 0 = Some 7500 \<and> retmap 1 = Some 7500 \<and> retmap 2 = Some 5000 \<and> retmap 3 = None"
proof -
  have entries: "first_order_entries c8_cs =
        [\<lparr>diffvars = [''ALPHA_0_A''], model_name = ''REDLICH_KISTER'',
           ast = (\<lambda>x. 20000 * (x ! 1))\<rparr>,
         \<lparr>diffvars = [''ALPHA_0_B''], model_name = ''REDLICH_KISTER'',
           ast = (\<lambda>x. 20000 * (x ! 0))\<rparr>,
         \<lparr>diffvars = [''ALPHA_FRAC''], model_name = ''REDLICH_KISTER'',
           ast = (\<lambda>x. 20000 * (x ! 0) * (x ! 1))\<rparr>]"
    by (simp add: first_order_entries_def c8_cs_def)
  have name: "cset_name c8_cs = ''ALPHA''" by (simp add: c8_cs_def)
  have defined: "list_all (entry_defined denotation_evaluator c8_cs c4_conditions c8_main_indices
                   [1 / 2, 1 / 2, 3 / 4]) (first_order_entries c8_cs)"
    by (simp add: entries entry_defined_def weighted_derivative_def denotation_evaluator_def
        name c8_main_indices_def array_read_def)
  have acc: "accumulated denotation_evaluator c8_cs c4_conditions c8_main_indices
               [1 / 2, 1 / 2, 3 / 4] (first_order_entries c8_cs) 0 = 7500"
            "accumulated denotation_evaluator c8_cs c4_conditions c8_main_indices
               [1 / 2, 1 / 2, 3 / 4] (first_order_entries c8_cs) 1 = 7500"
            "accumulated denotation_evaluator c8_cs c4_conditions c8_main_indices
               [1 / 2, 1 / 2, 3 / 4] (first_order_entries c8_cs) 2 = 5000"
    by (simp_all add: entries accumulated_def entries_of_index_def weighted_derivative_def
        denotation_evaluator_def name c8_main_indices_def array_read_def)
  have range: "(0 :: int) \<in> snd ` set c8_main_indices" "(1 :: int) \<in> snd ` set c8_main_indices"
    "(2 :: int) \<in> snd ` set c8_main_indices" "(3 :: int) \<notin> snd ` set c8_main_indices"
    by (simp_all add: c8_main_indices_def)
  show ?thesis
    using objective_gradient_weighting [of denotation_evaluator c8_cs c4_conditions
        c8_main_indices "[1 / 2, 1 / 2, 3 / 4]"] defined acc range
    by simp
qed

subsection \<open>C9: the clone with a renamed phase\<close>

lemma map_of_renamed:
  assumes "inj_on r (insert k (fst ` set al))"
  shows "map_of (map (\<lambda>i. (r (fst i), f (snd i))) al) (r k) = map_option f (map_of al k)"
  using assms
proof (induction al)
  case Nil
  then show ?case by simp
next
  case (Cons p al)
  have inj: "inj_on r (insert k (fst ` set al))"
    using Cons.prems by (rule inj_on_subset) auto
  have eq: "(r (fst p) = r k) = (fst p = k)"
    using Cons.prems by (auto simp: inj_on_def)
  show ?case
  proof (cases "fst p = k")
    case True
    then show ?thesis by (cases p) simp
  next
    case False
    then have "r (fst p) \<noteq> r k" using eq by simp
    then show ?thesis using False Cons.IH [OF inj] by (cases p) auto
  qed
qed

lemma eval_utree_renamed:
  assumes iv: "inj_on (replace_all old new) (V \<union> fst ` set main_indices)"
    and isy: "inj_on (replace_all old new) (S \<union> fst ` set symbol_table)"
    and sv: "\<forall>name\<in>V. name \<notin> fst ` set main_indices \<longrightarrow> replace_all old new name = name"
    and st: "\<forall>t\<in>snd ` set symbol_table. utree_variables t \<subseteq> V \<and> utree_symbols t \<subseteq> S"
  shows "utree_variables t \<subseteq> V \<Longrightarrow> utree_symbols t \<subseteq> S \<Longrightarrow>
         eval_utree fuel (ast_variable_rename old new t) conditions
           (rename_indices replace_all old new main_indices)
           (rename_symbols replace_all ast_variable_rename old new symbol_table) x
         = eval_utree fuel t conditions main_indices symbol_table x"
proof (induction fuel arbitrary: t)
  case 0
  then show ?case by simp
next
  case (Suc fuel)
  show ?case
  proof (cases t)
    case (Constant v)
    then show ?thesis by simp
  next
    case (Variable name)
    then have nV: "name \<in> V" using Suc.prems(1) by simp
    have "inj_on (replace_all old new) (insert name (fst ` set main_indices))"
      using iv nV by (rule_tac inj_on_subset) auto
    then have look: "map_of (rename_indices replace_all old new main_indices)
                       (replace_all old new name) = map_of main_indices name"
      using map_of_renamed [of "replace_all old new" name main_indices "\<lambda>i. i"]
      by (simp add: rename_indices_def option.map_ident)
    show ?thesis
    proof (cases "map_of main_indices name")
      case None
      then have "name \<notin> fst ` set main_indices"
        by (simp add: map_of_eq_None_iff)
      then have "replace_all old new name = name" using sv nV by simp
      then show ?thesis using Variable look None by simp
    next
      case (Some i)
      then show ?thesis using Variable look by simp
    qed
  next
    case (SymbolRef name)
    then have nS: "name \<in> S" using Suc.prems(2) by simp
    have "inj_on (replace_all old new) (insert name (fst ` set symbol_table))"
      using isy nS by (rule_tac inj_on_subset) auto
    then have look: "map_of (rename_symbols replace_all ast_variable_rename old new symbol_table)
                       (replace_all old new name)
                     = map_option (ast_variable_rename old new) (map_of symbol_table name)"
      using map_of_renamed [of "replace_all old new" name symbol_table
          "ast_variable_rename old new"]
      by (simp add: rename_symbols_def)
    show ?thesis
    proof (cases "map_of symbol_table name")
      case None
      then show ?thesis using SymbolRef look by simp
    next
      case (Some t')
      then have "t' \<in> snd ` set symbol_table"
        by (metis map_of_SomeD image_eqI snd_conv)
      then have "utree_variables t' \<subseteq> V" "utree_symbols t' \<subseteq> S" using st by auto
      then have "eval_utree fuel (ast_variable_rename old new t') conditions
           (rename_indices replace_all old new main_indices)
           (rename_symbols replace_all ast_variable_rename old new symbol_table) x
         = eval_utree fuel t' conditions main_indices symbol_table x"
        by (rule Suc.IH)
      then show ?thesis using SymbolRef look Some by simp
    qed
  next
    case (Binary op l r)
    then have "utree_variables l \<subseteq> V" "utree_symbols l \<subseteq> S"
      "utree_variables r \<subseteq> V" "utree_symbols r \<subseteq> S"
      using Suc.prems by auto
    then have "eval_utree fuel (ast_variable_rename old new l) conditions
           (rename_indices replace_all old new main_indices)
           (rename_symbols replace_all ast_variable_rename old new symbol_table) x
         = eval_utree fuel l conditions main_indices symbol_table x"
      "eval_utree fuel (ast_variable_rename old new r) conditions
           (rename_indices replace_all old new main_indices)
           (rename_symbols replace_all ast_variable_rename old new symbol_table) x
         = eval_utree fuel r conditions main_indices symbol_table x"
      by (simp_all add: Suc.IH)
    then show ?thesis using Binary by (simp cong: option.case_cong)
  next
    case (Unary op t')
    then have "utree_variables t' \<subseteq> V" "utree_symbols t' \<subseteq> S"
      using Suc.prems by auto
    then have "eval_utree fuel (ast_variable_rename old new t') conditions
           (rename_indices replace_all old new main_indices)
           (rename_symbols replace_all ast_variable_rename old new symbol_table) x
         = eval_utree fuel t' conditions main_indices symbol_table x"
      by (simp add: Suc.IH)
    then show ?thesis using Unary by (simp cong: option.case_cong)
  next
    case (Piecewise c low high t' e)
    then have "utree_variables t' \<subseteq> V" "utree_symbols t' \<subseteq> S"
      "utree_variables e \<subseteq> V" "utree_symbols e \<subseteq> S"
      using Suc.prems by auto
    then have "eval_utree fuel (ast_variable_rename old new t') conditions
           (rename_indices replace_all old new main_indices)
           (rename_symbols replace_all ast_variable_rename old new symbol_table) x
         = eval_utree fuel t' conditions main_indices symbol_table x"
      "eval_utree fuel (ast_variable_rename old new e) conditions
           (rename_indices replace_all old new main_indices)
           (rename_symbols replace_all ast_variable_rename old new symbol_table) x
         = eval_utree fuel e conditions main_indices symbol_table x"
      by (simp_all add: Suc.IH)
    then show ?thesis using Piecewise by (simp cong: option.case_cong if_cong)
  qed
qed

lemma clone_tree_value:
  assumes safe: "rename_safe new_name cs main_indices"
    and t: "t \<in> cs_trees cs"
  shows "eval_utree fuel (ast_variable_rename (cset_name cs) new_name t) conditions
           (rename_indices replace_all (cset_name cs) new_name main_indices)
           (symbols (CompositionSet_clone replace_all ast_variable_rename cs
                       new_starting_point new_name)) x
         = eval_utree fuel t conditions main_indices (symbols cs) x"
proof -
  let ?r = "replace_all (cset_name cs) new_name"
  have iv: "inj_on ?r (cs_variables cs \<union> fst ` set main_indices)"
    using safe unfolding rename_safe_def by (auto intro: inj_on_subset)
  have "cs_symbols cs \<union> fst ` set (symbols cs) = cs_symbols cs"
    by (auto simp: cs_symbols_def)
  then have isy: "inj_on ?r (cs_symbols cs \<union> fst ` set (symbols cs))"
    using safe unfolding rename_safe_def by simp
  have sv: "\<forall>name\<in>cs_variables cs.
              name \<notin> fst ` set main_indices \<longrightarrow> ?r name = name"
    using safe unfolding rename_safe_def by blast
  have sub: "utree_variables u \<subseteq> cs_variables cs \<and> utree_symbols u \<subseteq> cs_symbols cs"
    if "u \<in> cs_trees cs" for u
    using that by (auto simp: cs_variables_def cs_symbols_def)
  have st: "\<forall>u\<in>snd ` set (symbols cs).
              utree_variables u \<subseteq> cs_variables cs \<and> utree_symbols u \<subseteq> cs_symbols cs"
  proof
    fix u assume "u \<in> snd ` set (symbols cs)"
    then have "u \<in> cs_trees cs" by (simp add: cs_trees_def)
    then show "utree_variables u \<subseteq> cs_variables cs \<and> utree_symbols u \<subseteq> cs_symbols cs"
      by (rule sub)
  qed
  have sy: "symbols (CompositionSet_clone replace_all ast_variable_rename cs
                       new_starting_point new_name)
            = rename_symbols replace_all ast_variable_rename (cset_name cs) new_name (symbols cs)"
    by (simp add: CompositionSet_clone_def Let_def)
  show ?thesis
    unfolding sy
    using iv isy sv st sub [OF t, THEN conjunct1] sub [OF t, THEN conjunct2]
    by (rule eval_utree_renamed)
qed

lemma clone_objective:
  assumes safe: "rename_safe new_name cs main_indices"
  shows "evaluate_objective (eval_utree fuel)
           (CompositionSet_clone replace_all ast_variable_rename cs new_starting_point new_name)
           conditions (rename_indices replace_all (cset_name cs) new_name main_indices) x
         = evaluate_objective (eval_utree fuel) cs conditions main_indices x"
proof -
  let ?clone = "CompositionSet_clone replace_all ast_variable_rename cs new_starting_point new_name"
  let ?mi = "rename_indices replace_all (cset_name cs) new_name main_indices"
  let ?g = "\<lambda>energymod :: string \<times> utree.
              (fst energymod, ast_variable_rename (cset_name cs) new_name (snd energymod))"
  have models: "models ?clone = map ?g (models cs)"
    by (simp add: CompositionSet_clone_def Let_def)
  have step: "add_model (eval_utree fuel) ?clone conditions ?mi x (?g m)
              = add_model (eval_utree fuel) cs conditions main_indices x m"
    if "m \<in> set (models cs)" for m
  proof -
    have "snd m \<in> cs_trees cs" using that by (simp add: cs_trees_def)
    then have "eval_utree fuel (ast_variable_rename (cset_name cs) new_name (snd m)) conditions
                 ?mi (symbols ?clone) x
               = eval_utree fuel (snd m) conditions main_indices (symbols cs) x"
      by (rule clone_tree_value [OF safe])
    then show ?thesis by (simp add: add_model_def fun_eq_iff cong: option.case_cong)
  qed
  have "fold (add_model (eval_utree fuel) ?clone conditions ?mi x) (map ?g (models cs)) (Some 0)
        = fold (add_model (eval_utree fuel) ?clone conditions ?mi x \<circ> ?g) (models cs) (Some 0)"
    by (simp add: fold_map)
  also have "\<dots> = fold (add_model (eval_utree fuel) cs conditions main_indices x) (models cs)
                     (Some 0)"
    by (rule fold_cong) (simp_all add: step)
  finally show ?thesis by (simp add: evaluate_objective_def models)
qed

lemma clone_gradient:
  assumes safe: "rename_safe new_name cs main_indices"
  shows "evaluate_objective_gradient (eval_utree fuel)
           (CompositionSet_clone replace_all ast_variable_rename cs new_starting_point new_name)
           conditions (rename_indices replace_all (cset_name cs) new_name main_indices) x
         = evaluate_objective_gradient (eval_utree fuel) cs conditions main_indices x"
proof -
  let ?r = "replace_all (cset_name cs) new_name"
  let ?clone = "CompositionSet_clone replace_all ast_variable_rename cs new_starting_point new_name"
  let ?mi = "rename_indices replace_all (cset_name cs) new_name main_indices"
  let ?g = "rename_entry replace_all ast_variable_rename (cset_name cs) new_name"
  let ?D = "cs_variables cs \<union> cs_diffvars cs \<union> {cset_name cs @ ''_FRAC''} \<union>
            fst ` set main_indices"
  have inj: "inj_on ?r ?D" using safe unfolding rename_safe_def by blast
  have rfrac: "?r (cset_name cs @ ''_FRAC'') = new_name @ ''_FRAC''"
    using safe unfolding rename_safe_def by blast
  have name: "cset_name ?clone = new_name"
    by (simp add: CompositionSet_clone_def Let_def)
  have look: "map_of ?mi (?r v) = map_of main_indices v" if "v \<in> ?D" for v
  proof -
    have "inj_on ?r (insert v (fst ` set main_indices))"
      using inj by (rule inj_on_subset) (use that in auto)
    then show ?thesis
      using map_of_renamed [of ?r v main_indices "\<lambda>i. i"]
      by (simp add: rename_indices_def option.map_ident)
  qed
  have entries: "first_order_entries ?clone = map ?g (first_order_entries cs)"
    by (simp add: first_order_entries_def CompositionSet_clone_def Let_def filter_map
        comp_def rename_entry_def)
  have init: "map (\<lambda>i. (snd i, 0 :: real)) ?mi = map (\<lambda>i. (snd i, 0)) main_indices"
    by (simp add: rename_indices_def comp_def)
  have step: "gradient_entry (eval_utree fuel) ?clone conditions ?mi x (?g i)
              = gradient_entry (eval_utree fuel) cs conditions main_indices x i"
    if i: "i \<in> set (first_order_entries cs)" for i
  proof (rule ext)
    fix st
    have "i \<in> set (tree_data cs)" "length (diffvars i) = 1"
      using i by (simp_all add: first_order_entries_def)
    then have tree: "ast i \<in> cs_trees cs" and ne: "diffvars i \<noteq> []"
      by (auto simp: cs_trees_def)
    have val: "eval_utree fuel (ast (?g i)) conditions ?mi (symbols ?clone) x
               = eval_utree fuel (ast i) conditions main_indices (symbols cs) x"
      using clone_tree_value [OF safe tree] by (simp add: rename_entry_def)
    have hd: "hd (diffvars (?g i)) = ?r (hd (diffvars i))"
      using ne by (simp add: rename_entry_def hd_map)
    have dv: "hd (diffvars i) \<in> ?D" using i by (simp add: cs_diffvars_def)
    have fr: "cset_name cs @ ''_FRAC'' \<in> ?D" by simp
    have l1: "map_of ?mi (?r (hd (diffvars i))) = map_of main_indices (hd (diffvars i))"
      using dv by (rule look)
    have l2: "map_of ?mi (new_name @ ''_FRAC'') = map_of main_indices (cset_name cs @ ''_FRAC'')"
      using look [OF fr] rfrac by simp
    have cmp: "(?r (hd (diffvars i)) = new_name @ ''_FRAC'')
               = (hd (diffvars i) = cset_name cs @ ''_FRAC'')"
      using inj dv fr rfrac by (metis inj_on_eq_iff)
    show "gradient_entry (eval_utree fuel) ?clone conditions ?mi x (?g i) st
          = gradient_entry (eval_utree fuel) cs conditions main_indices x i st"
      by (simp add: gradient_entry_def Let_def name val hd l1 l2 cmp
          cong: option.case_cong if_cong)
  qed
  have "fold (gradient_entry (eval_utree fuel) ?clone conditions ?mi x)
          (map ?g (first_order_entries cs)) (Some (map_of (map (\<lambda>i. (snd i, 0)) main_indices)))
        = fold (gradient_entry (eval_utree fuel) ?clone conditions ?mi x \<circ> ?g)
            (first_order_entries cs) (Some (map_of (map (\<lambda>i. (snd i, 0)) main_indices)))"
    by (simp add: fold_map)
  also have "\<dots> = fold (gradient_entry (eval_utree fuel) cs conditions main_indices x)
                      (first_order_entries cs)
                      (Some (map_of (map (\<lambda>i. (snd i, 0)) main_indices)))"
    by (rule fold_cong) (simp_all add: step)
  finally show ?thesis
    by (simp add: evaluate_objective_gradient_def entries init)
qed

lemma c9_short_renamed:
  "rename_indices replace_all ''A'' ''B'' c9_short_indices
     = [(''B_0_X'', 0), (''B_0_Y'', 1), (''B_FRBC'', 2)]"
  by (simp add: rename_indices_def c9_short_indices_def)

lemma c9_short_clone_entries:
  "first_order_entries (CompositionSet_clone replace_all ast_variable_rename c9_short_cs [] ''B'')
     = [\<lparr>diffvars = [''B_0_X''], model_name = ''REDLICH_KISTER'',
           ast = Binary Times (Constant 20000) (Variable ''B_0_Y'')\<rparr>,
        \<lparr>diffvars = [''B_0_Y''], model_name = ''REDLICH_KISTER'',
           ast = Binary Times (Constant 20000) (Variable ''B_0_X'')\<rparr>,
        \<lparr>diffvars = [''B_FRBC''], model_name = ''REDLICH_KISTER'',
           ast = Binary Times (Binary Times (Constant 20000) (Variable ''B_0_X''))
                              (Variable ''B_0_Y'')\<rparr>]"
  by (simp add: first_order_entries_def CompositionSet_clone_def c9_short_cs_def
      rename_entry_def Let_def)

lemma c9_short_clone_name:
  "cset_name (CompositionSet_clone replace_all ast_variable_rename c9_short_cs [] ''B'') = ''B''"
  by (simp add: CompositionSet_clone_def Let_def)

text \<open>
  Claim C9 as stated (for every composition set the clone gives the objective and the
  gradient of the original at the renamed variables' values) fails for the phase named A
  cloned as B: the replacement turns \<open>A_FRAC\<close> into \<open>B_FRBC\<close>, the clone looks for
  \<open>B_FRAC\<close>, and its gradient throws where the original's is defined, with the renamed
  index map and also with an index map that names the phase fraction \<open>B_FRAC\<close>.
\<close>
theorem clone_gradient_differs:
  "(\<exists>retmap. evaluate_objective_gradient (eval_utree 10) c9_short_cs c9_conditions
                c9_short_indices [1 / 2, 1 / 2, 3 / 4] = Some retmap \<and>
             retmap 0 = Some 7500 \<and> retmap 1 = Some 7500 \<and> retmap 2 = Some 5000) \<and>
   evaluate_objective_gradient (eval_utree 10)
     (CompositionSet_clone replace_all ast_variable_rename c9_short_cs [] ''B'') c9_conditions
     (rename_indices replace_all ''A'' ''B'' c9_short_indices) [1 / 2, 1 / 2, 3 / 4] = None \<and>
   evaluate_objective_gradient (eval_utree 10)
     (CompositionSet_clone replace_all ast_variable_rename c9_short_cs [] ''B'') c9_conditions
     [(''B_0_X'', 0), (''B_0_Y'', 1), (''B_FRAC'', 2)] [1 / 2, 1 / 2, 3 / 4] = None"
proof -
  have entries: "first_order_entries c9_short_cs = tree_data c9_short_cs"
    by (simp add: first_order_entries_def c9_short_cs_def)
  have 1: "\<exists>retmap. evaluate_objective_gradient (eval_utree 10) c9_short_cs c9_conditions
                c9_short_indices [1 / 2, 1 / 2, 3 / 4] = Some retmap \<and>
             retmap 0 = Some 7500 \<and> retmap 1 = Some 7500 \<and> retmap 2 = Some 5000"
    unfolding evaluate_objective_gradient_def entries
    by (simp add: c9_short_cs_def c9_short_indices_def gradient_entry_def retmap_add_def
        array_read_def apply_binary_def Let_def eval_nat_numeral)
  have 2: "evaluate_objective_gradient (eval_utree 10)
     (CompositionSet_clone replace_all ast_variable_rename c9_short_cs [] ''B'') c9_conditions
     (rename_indices replace_all ''A'' ''B'' c9_short_indices) [1 / 2, 1 / 2, 3 / 4] = None"
    unfolding evaluate_objective_gradient_def c9_short_clone_entries c9_short_renamed
    by (simp add: gradient_entry_def c9_short_clone_name CompositionSet_clone_def
        c9_short_cs_def rename_symbols_def retmap_add_def array_read_def apply_binary_def
        Let_def eval_nat_numeral)
  have 3: "evaluate_objective_gradient (eval_utree 10)
     (CompositionSet_clone replace_all ast_variable_rename c9_short_cs [] ''B'') c9_conditions
     [(''B_0_X'', 0), (''B_0_Y'', 1), (''B_FRAC'', 2)] [1 / 2, 1 / 2, 3 / 4] = None"
    unfolding evaluate_objective_gradient_def c9_short_clone_entries
    by (simp add: gradient_entry_def c9_short_clone_name CompositionSet_clone_def
        c9_short_cs_def rename_symbols_def retmap_add_def array_read_def apply_binary_def
        Let_def eval_nat_numeral)
  show ?thesis using 1 2 3 by blast
qed

text \<open>
  Claim C9, amended: when the textual replacement is safe for the composition set and
  the index map (\<open>rename_safe\<close>), the clone evaluated with the renamed index map at
  the same \<open>x\<close> gives the objective and the gradient of the original, for every fuel.
\<close>
theorem clone_equivalence:
  assumes "rename_safe new_name cs main_indices"
  shows "evaluate_objective (eval_utree fuel)
           (CompositionSet_clone replace_all ast_variable_rename cs new_starting_point new_name)
           conditions (rename_indices replace_all (cset_name cs) new_name main_indices) x
         = evaluate_objective (eval_utree fuel) cs conditions main_indices x \<and>
         evaluate_objective_gradient (eval_utree fuel)
           (CompositionSet_clone replace_all ast_variable_rename cs new_starting_point new_name)
           conditions (rename_indices replace_all (cset_name cs) new_name main_indices) x
         = evaluate_objective_gradient (eval_utree fuel) cs conditions main_indices x"
  using assms by (simp add: clone_objective clone_gradient)

lemma c9_safe: "rename_safe ''ALPHA2'' c9_cs c9_main_indices"
proof -
  have n: "cset_name c9_cs = ''ALPHA''" by (simp add: c9_cs_def)
  have v: "cs_variables c9_cs = {''ALPHA_0_A'', ''ALPHA_0_B'', ''T''}"
    by (auto simp: cs_variables_def cs_trees_def c9_cs_def)
  have s: "cs_symbols c9_cs = {''ALPHA_L0''}"
    by (auto simp: cs_symbols_def cs_trees_def c9_cs_def)
  have d: "cs_diffvars c9_cs = {''ALPHA_0_A'', ''ALPHA_0_B'', ''ALPHA_FRAC''}"
    by (auto simp: cs_diffvars_def first_order_entries_def c9_cs_def)
  have m: "fst ` set c9_main_indices = {''ALPHA_0_A'', ''ALPHA_0_B'', ''ALPHA_FRAC''}"
    by (auto simp: c9_main_indices_def)
  have D: "cs_variables c9_cs \<union> cs_diffvars c9_cs \<union> {cset_name c9_cs @ ''_FRAC''} \<union>
           fst ` set c9_main_indices = {''ALPHA_0_A'', ''ALPHA_0_B'', ''ALPHA_FRAC'', ''T''}"
    unfolding n v d m by auto
  have 1: "inj_on (replace_all ''ALPHA'' ''ALPHA2'')
             {''ALPHA_0_A'', ''ALPHA_0_B'', ''ALPHA_FRAC'', ''T''}"
    by (simp add: inj_on_def)
  have 2: "inj_on (replace_all ''ALPHA'' ''ALPHA2'') {''ALPHA_L0''}"
    by simp
  have 3: "replace_all ''ALPHA'' ''ALPHA2'' (''ALPHA'' @ ''_FRAC'') = ''ALPHA2'' @ ''_FRAC''"
    by simp
  have 4: "\<forall>name \<in> {''ALPHA_0_A'', ''ALPHA_0_B'', ''T''}.
             name \<notin> {''ALPHA_0_A'', ''ALPHA_0_B'', ''ALPHA_FRAC''} \<longrightarrow>
             replace_all ''ALPHA'' ''ALPHA2'' name = name"
    by simp
  show ?thesis
    unfolding rename_safe_def D
    unfolding n v s m
    using 1 2 3 4 by blast
qed

text \<open>The phase ALPHA cloned as ALPHA2 satisfies the hypothesis of the amended claim C9.\<close>
theorem clone_equivalence_witness:
  "rename_safe ''ALPHA2'' c9_cs c9_main_indices \<and>
   evaluate_objective (eval_utree 10)
     (CompositionSet_clone replace_all ast_variable_rename c9_cs [] ''ALPHA2'') c9_conditions
     (rename_indices replace_all (cset_name c9_cs) ''ALPHA2'' c9_main_indices)
     [1 / 2, 1 / 2, 3 / 4]
   = evaluate_objective (eval_utree 10) c9_cs c9_conditions c9_main_indices [1 / 2, 1 / 2, 3 / 4] \<and>
   evaluate_objective_gradient (eval_utree 10)
     (CompositionSet_clone replace_all ast_variable_rename c9_cs [] ''ALPHA2'') c9_conditions
     (rename_indices replace_all (cset_name c9_cs) ''ALPHA2'' c9_main_indices)
     [1 / 2, 1 / 2, 3 / 4]
   = evaluate_objective_gradient (eval_utree 10) c9_cs c9_conditions c9_main_indices
       [1 / 2, 1 / 2, 3 / 4] \<and>
   evaluate_objective (eval_utree 10) c9_cs c9_conditions c9_main_indices [1 / 2, 1 / 2, 3 / 4]
     = Some 4850"
proof -
  have v: "evaluate_objective (eval_utree 10) c9_cs c9_conditions c9_main_indices
             [1 / 2, 1 / 2, 3 / 4] = Some 4850"
    by (simp add: evaluate_objective_def add_model_def c9_cs_def c9_main_indices_def
        c9_conditions_def array_read_def state_variable_def apply_binary_def eval_nat_numeral)
  show ?thesis
    using clone_equivalence [OF c9_safe] c9_safe v by simp
qed

subsection \<open>C10: the shadowed critical edge length\<close>

text \<open>
  Claim C10: the result of \<open>find_tie_points\<close> does not depend on the data member
  \<open>critical_edge_length\<close>: it equals the result for any other value \<open>e\<close> of the
  member, and both the tie-line step and the merge step compare with the local constant
  5/100.
\<close>
theorem find_tie_points_ignores_member:
  "find_tie_points std_sort (gm\<lparr>critical_edge_length := e\<rparr>) conditions =
     find_tie_points std_sort gm conditions \<and>
   find_tie_points std_sort gm conditions =
     (if list_all (facet_readable (hull_map gm) (trial_point conditions)) (candidate_facets gm)
      then (if std_sort (pre_candidate_facets gm conditions) = [] then Some []
            else (case for_each_pair (tie_line_step (hull_map gm) (5 / 100))
                         (vertices (hd (std_sort (pre_candidate_facets gm conditions))))
                         (Some []) of
                    None \<Rightarrow> None
                  | Some candidate_ids \<Rightarrow>
                      (case merge_step (hull_map gm) (5 / 100) candidate_ids of
                         None \<Rightarrow> None
                       | Some merged \<Rightarrow>
                           if merged = []
                           then (case vertices
                                   (hd (std_sort (pre_candidate_facets gm conditions))) of
                                   [] \<Rightarrow> None
                                 | first_vertex # rest \<Rightarrow> Some [hull_map gm ! first_vertex])
                           else Some (map (\<lambda>point_id. hull_map gm ! point_id) merged))))
      else None)"
  by (simp add: find_tie_points_def pre_candidate_facets_def tie_points_of_facet_def Let_def
      cong: option.case_cong list.case_cong if_cong)

end
